theory Spec2Isabelle
  imports Complex_Main
begin

section \<open>Python values handled by the evaluator\<close>

text \<open>
  A Python float: a finite value (every finite double is a rational number), the two
  infinities, or NaN. \<open>json.loads\<close> produces all four kinds.
\<close>

datatype pyfloat = Fin rat | PosInf | NegInf | NaN

text \<open>The comparison \<open>a < b\<close> of two floats; every comparison with NaN is false.\<close>

fun float_lt :: "pyfloat \<Rightarrow> pyfloat \<Rightarrow> bool" where
  "float_lt NaN b = False"
| "float_lt a NaN = False"
| "float_lt (Fin a) (Fin b) = (a < b)"
| "float_lt (Fin a) PosInf = True"
| "float_lt (Fin a) NegInf = False"
| "float_lt NegInf NegInf = False"
| "float_lt NegInf b = True"
| "float_lt PosInf b = False"

text \<open>
  What \<open>json.loads\<close> returns: a dict is an association list read with \<open>map_of\<close>.
\<close>

datatype json =
    JNull
  | JBool bool
  | JInt int
  | JFloat pyfloat
  | JStr string
  | JArr "json list"
  | JObj "(string \<times> json) list"

text \<open>
  Exceptions. \<open>ValueErrorMsg\<close> is a \<open>ValueError\<close> raised by the evaluator itself, with
  its message; the next five are raised by the Python runtime (their message text is not
  modelled); \<open>CallError\<close> is whatever loading the prompt, formatting it or calling the
  language model raised, with its \<open>str()\<close>; \<open>GraphRecursionError\<close> is the graph runner's.
\<close>

datatype pyexn =
    ValueErrorMsg string
  | ValueError
  | TypeError
  | KeyError string
  | AttributeError
  | OverflowError
  | CallError string
  | GraphRecursionError

text \<open>
  An entry of the \<open>errors\<close> list: a fixed message, or \<open>f"{node}: {str(e)}"\<close> for a
  caught exception \<open>e\<close>.
\<close>

datatype errmsg = Msg string | NodeExn string pyexn

text \<open>Sequencing of computations that may raise.\<close>

definition then_do :: "pyexn + 'a \<Rightarrow> ('a \<Rightarrow> pyexn + 'b) \<Rightarrow> pyexn + 'b" where
  "then_do m f = (case m of Inl e \<Rightarrow> Inl e | Inr v \<Rightarrow> f v)"

text \<open>\<open>needle in haystack\<close> on two strings: the needle occurs as a contiguous run.\<close>

fun starts_with :: "'a list \<Rightarrow> 'a list \<Rightarrow> bool" where
  "starts_with [] ys = True"
| "starts_with (x # xs) [] = False"
| "starts_with (x # xs) (y # ys) = (x = y \<and> starts_with xs ys)"

fun str_in :: "'a list \<Rightarrow> 'a list \<Rightarrow> bool" where
  "str_in xs [] = (xs = [])"
| "str_in xs (y # ys) = (starts_with xs (y # ys) \<or> str_in xs ys)"

text \<open>\<open>key in result\<close> for a string key and whatever value the model returned.\<close>

fun py_contains :: "string \<Rightarrow> json \<Rightarrow> pyexn + bool" where
  "py_contains k (JObj d) = Inr (map_of d k \<noteq> None)"
| "py_contains k (JArr xs) = Inr (JStr k \<in> set xs)"
| "py_contains k (JStr s) = Inr (str_in k s)"
| "py_contains k v = Inl TypeError"

text \<open>\<open>result[key]\<close> for a string key.\<close>

fun py_getitem :: "json \<Rightarrow> string \<Rightarrow> pyexn + json" where
  "py_getitem (JObj d) k = (case map_of d k of None \<Rightarrow> Inl (KeyError k) | Some v \<Rightarrow> Inr v)"
| "py_getitem v k = Inl TypeError"

text \<open>\<open>result.get(key, default)\<close>: only a dict has the method.\<close>

fun py_get :: "json \<Rightarrow> string \<Rightarrow> json \<Rightarrow> pyexn + json" where
  "py_get (JObj d) k dflt = Inr (case map_of d k of None \<Rightarrow> dflt | Some v \<Rightarrow> v)"
| "py_get v k dflt = Inl AttributeError"

text \<open>
  The conversions of the Python runtime that read text or round are parameters: what
  \<open>float(s)\<close> and \<open>int(s)\<close> return for a string (\<open>None\<close>: \<open>ValueError\<close>), and what
  \<open>float(i)\<close> returns for an integer (\<open>None\<close>: \<open>OverflowError\<close>).
\<close>

record Builtins =
  float_of_str :: "string \<Rightarrow> pyfloat option"
  float_of_int :: "int \<Rightarrow> pyfloat option"
  int_of_str :: "string \<Rightarrow> int option"

fun py_float :: "Builtins \<Rightarrow> json \<Rightarrow> pyexn + pyfloat" where
  "py_float B JNull = Inl TypeError"
| "py_float B (JBool b) = Inr (Fin (if b then 1 else 0))"
| "py_float B (JInt i) = (case float_of_int B i of None \<Rightarrow> Inl OverflowError | Some f \<Rightarrow> Inr f)"
| "py_float B (JFloat f) = Inr f"
| "py_float B (JStr s) = (case float_of_str B s of None \<Rightarrow> Inl ValueError | Some f \<Rightarrow> Inr f)"
| "py_float B (JArr xs) = Inl TypeError"
| "py_float B (JObj d) = Inl TypeError"

text \<open>\<open>int(v)\<close>: a float is truncated towards zero.\<close>

fun py_int :: "Builtins \<Rightarrow> json \<Rightarrow> pyexn + int" where
  "py_int B JNull = Inl TypeError"
| "py_int B (JBool b) = Inr (if b then 1 else 0)"
| "py_int B (JInt i) = Inr i"
| "py_int B (JFloat (Fin q)) = Inr (if 0 \<le> q then \<lfloor>q\<rfloor> else \<lceil>q\<rceil>)"
| "py_int B (JFloat NaN) = Inl ValueError"
| "py_int B (JFloat PosInf) = Inl OverflowError"
| "py_int B (JFloat NegInf) = Inl OverflowError"
| "py_int B (JStr s) = (case int_of_str B s of None \<Rightarrow> Inl ValueError | Some i \<Rightarrow> Inr i)"
| "py_int B (JArr xs) = Inl TypeError"
| "py_int B (JObj d) = Inl TypeError"

section \<open>State definitions (graphs/state.py)\<close>

record ChunkData =
  artifact_id :: string
  chunk_id :: string
  district :: string
  meeting_date :: "string option"
  source_url :: string
  board_page_url :: string
  chunk_text :: string

text \<open>
  The annotations of the typed dicts are not enforced at run time: \<open>classify_node\<close>
  converts only \<open>confidence\<close>, and \<open>score_node\<close> only the scores, so the other fields
  hold whatever JSON value the model returned.
\<close>

record ClassificationResult =
  category :: json
  confidence :: pyfloat
  evidence_snippet :: json
  rationale :: json

record ScoreBreakdown =
  intent_strength :: int
  time_window :: int
  eduquest_fit :: int
  evidence_quality :: int

record ScoringResult =
  opportunity_score :: int
  score_breakdown :: ScoreBreakdown
  summary :: json
  recommended_next_step :: json

record SignalRecord =
  sr_chunk_id :: string
  sr_artifact_id :: string
  sr_district :: string
  sr_meeting_date :: "string option"
  sr_source_url :: string
  sr_board_page_url :: string
  sr_category :: json
  sr_confidence :: pyfloat
  sr_opportunity_score :: int
  sr_evidence_snippet :: json
  sr_summary :: json
  sr_recommended_next_step :: json
  sr_rationale :: json
  sr_generated_at :: string

text \<open>
  The state of one traversal. The optional keys are options; \<open>errors\<close> and \<open>keep\<close> are
  set by \<open>evaluate_chunk\<close> before the graph runs.
\<close>

record EvaluatorState =
  chunk :: ChunkData
  classification :: "ClassificationResult option"
  scoring :: "ScoringResult option"
  errors :: "errmsg list"
  keep :: bool
  signal_record :: "SignalRecord option"

text \<open>
  The dict a node returns: each key is either absent or carries the new value. The graph
  overwrites the keys that are present and leaves the others.
\<close>

record Update =
  u_classification :: "ClassificationResult option"
  u_scoring :: "ScoringResult option"
  u_errors :: "errmsg list option"
  u_keep :: "bool option"
  u_signal_record :: "SignalRecord option"

definition no_update :: Update where
  "no_update = \<lparr>u_classification = None, u_scoring = None, u_errors = None,
                 u_keep = None, u_signal_record = None\<rparr>"

definition apply_update :: "EvaluatorState \<Rightarrow> Update \<Rightarrow> EvaluatorState" where
  "apply_update s u =
     \<lparr>chunk = chunk s,
      classification = (case u_classification u of None \<Rightarrow> classification s | Some c \<Rightarrow> Some c),
      scoring = (case u_scoring u of None \<Rightarrow> scoring s | Some r \<Rightarrow> Some r),
      errors = (case u_errors u of None \<Rightarrow> errors s | Some es \<Rightarrow> es),
      keep = (case u_keep u of None \<Rightarrow> keep s | Some k \<Rightarrow> k),
      signal_record = (case u_signal_record u of None \<Rightarrow> signal_record s | Some r \<Rightarrow> Some r)\<rparr>"

section \<open>What the evaluator is run with\<close>

text \<open>
  The two thresholds of the settings, the runtime conversions, the two calls of the
  language model and the clock. \<open>classify_call\<close> stands for loading the classification
  prompt, formatting it with the chunk's text and \<open>invoke_llm_json\<close>; \<open>score_call\<close> for
  the same with the scoring prompt. Each returns the parsed JSON or the exception raised.
\<close>

record World =
  confidence_threshold :: pyfloat
  score_threshold :: int
  builtins :: Builtins
  classify_call :: "ChunkData \<Rightarrow> pyexn + json"
  score_call :: "ChunkData \<Rightarrow> ClassificationResult \<Rightarrow> pyexn + json"
  now_isoformat :: string

definition default_confidence_threshold :: pyfloat where
  "default_confidence_threshold = Fin (7 / 10)"

definition default_score_threshold :: int where
  "default_score_threshold = 50"

section \<open>Nodes (graphs/nodes.py)\<close>

definition required_fields :: "string list" where
  "required_fields = [''category'', ''confidence'', ''evidence_snippet'', ''rationale'']"

text \<open>The loop over the required fields: the first missing one raises.\<close>

fun check_required :: "string list \<Rightarrow> json \<Rightarrow> pyexn + unit" where
  "check_required [] result = Inr ()"
| "check_required (field # rest) result =
     then_do (py_contains field result) (\<lambda>present.
       if \<not> present
       then Inl (ValueErrorMsg (''Missing required field in classification: '' @ field))
       else check_required rest result)"

text \<open>The body of the \<open>try\<close> of \<open>classify_node\<close>.\<close>

definition classify_body :: "World \<Rightarrow> EvaluatorState \<Rightarrow> pyexn + Update" where
  "classify_body W state =
     then_do (classify_call W (chunk state)) (\<lambda>result.
     then_do (check_required required_fields result) (\<lambda>_.
     then_do (py_getitem result ''category'') (\<lambda>cat.
     then_do (py_getitem result ''confidence'') (\<lambda>conf_raw.
     then_do (py_float (builtins W) conf_raw) (\<lambda>conf.
     then_do (py_getitem result ''evidence_snippet'') (\<lambda>snip.
     then_do (py_getitem result ''rationale'') (\<lambda>rat.
       Inr (no_update\<lparr>u_classification :=
              Some \<lparr>category = cat, confidence = conf,
                    evidence_snippet = snip, rationale = rat\<rparr>\<rparr>))))))))"

definition classify_node :: "World \<Rightarrow> EvaluatorState \<Rightarrow> pyexn + Update" where
  "classify_node W state =
     (case classify_body W state of
        Inr u \<Rightarrow> Inr u
      | Inl e \<Rightarrow> Inr (no_update\<lparr>u_errors :=
                        Some (errors state @ [NodeExn ''classify_node'' e])\<rparr>))"

text \<open>
  \<open>snippet not in chunk_text\<close> raises \<open>TypeError\<close> when the snippet is not a string;
  this node has no \<open>try\<close>.
\<close>

definition evidence_validation_node :: "EvaluatorState \<Rightarrow> pyexn + Update" where
  "evidence_validation_node state =
     (case classification state of
        None \<Rightarrow>
          Inr (no_update\<lparr>u_errors := Some (errors state @ [Msg ''No classification to validate'']),
                         u_keep := Some False\<rparr>)
      | Some c \<Rightarrow>
          (case evidence_snippet c of
             JStr snippet \<Rightarrow>
               if \<not> str_in snippet (chunk_text (chunk state))
               then Inr (no_update\<lparr>u_errors :=
                           Some (errors state
                                 @ [Msg ''Evidence snippet not found verbatim in chunk text'']),
                         u_keep := Some False\<rparr>)
               else Inr no_update
           | _ \<Rightarrow> Inl TypeError))"

text \<open>One sub-score: \<open>int(result.get("score_breakdown", {}).get(name, 0))\<close>.\<close>

definition sub_score :: "Builtins \<Rightarrow> json \<Rightarrow> string \<Rightarrow> pyexn + int" where
  "sub_score B result name =
     then_do (py_get result ''score_breakdown'' (JObj [])) (\<lambda>sb.
     then_do (py_get sb name (JInt 0)) (\<lambda>v. py_int B v))"

definition score_body :: "World \<Rightarrow> EvaluatorState \<Rightarrow> pyexn + Update" where
  "score_body W state =
     (case classification state of
        None \<Rightarrow> Inl (KeyError ''classification'')
      | Some c \<Rightarrow>
          then_do (score_call W (chunk state) c) (\<lambda>result.
          then_do (sub_score (builtins W) result ''intent_strength'') (\<lambda>i_s.
          then_do (sub_score (builtins W) result ''time_window'') (\<lambda>t_w.
          then_do (sub_score (builtins W) result ''eduquest_fit'') (\<lambda>e_f.
          then_do (sub_score (builtins W) result ''evidence_quality'') (\<lambda>e_q.
          then_do (py_getitem result ''opportunity_score'') (\<lambda>opp_raw.
          then_do (py_int (builtins W) opp_raw) (\<lambda>opp.
          then_do (py_getitem result ''summary'') (\<lambda>summ.
          then_do (py_getitem result ''recommended_next_step'') (\<lambda>step.
            Inr (no_update\<lparr>u_scoring :=
                   Some \<lparr>opportunity_score = opp,
                         score_breakdown =
                           \<lparr>intent_strength = i_s, time_window = t_w,
                            eduquest_fit = e_f, evidence_quality = e_q\<rparr>,
                         summary = summ,
                         recommended_next_step = step\<rparr>\<rparr>)))))))))))"

definition score_node :: "World \<Rightarrow> EvaluatorState \<Rightarrow> pyexn + Update" where
  "score_node W state =
     (case score_body W state of
        Inr u \<Rightarrow> Inr u
      | Inl e \<Rightarrow> Inr (no_update\<lparr>u_errors :=
                        Some (errors state @ [NodeExn ''score_node'' e])\<rparr>))"

text \<open>\<open>state["classification"]\<close> and \<open>state["scoring"]\<close> raise \<open>KeyError\<close> when absent.\<close>

definition normalize_node :: "World \<Rightarrow> EvaluatorState \<Rightarrow> pyexn + Update" where
  "normalize_node W state =
     (case classification state of
        None \<Rightarrow> Inl (KeyError ''classification'')
      | Some c \<Rightarrow>
          (case scoring state of
             None \<Rightarrow> Inl (KeyError ''scoring'')
           | Some sc \<Rightarrow>
               Inr (no_update\<lparr>u_signal_record :=
                      Some \<lparr>sr_chunk_id = chunk_id (chunk state),
                            sr_artifact_id = artifact_id (chunk state),
                            sr_district = district (chunk state),
                            sr_meeting_date = meeting_date (chunk state),
                            sr_source_url = source_url (chunk state),
                            sr_board_page_url = board_page_url (chunk state),
                            sr_category = category c,
                            sr_confidence = confidence c,
                            sr_opportunity_score = opportunity_score sc,
                            sr_evidence_snippet = evidence_snippet c,
                            sr_summary = summary sc,
                            sr_recommended_next_step = recommended_next_step sc,
                            sr_rationale = rationale c,
                            sr_generated_at = now_isoformat W\<rparr>,
                    u_keep := Some True\<rparr>)))"

definition drop_node :: "EvaluatorState \<Rightarrow> pyexn + Update" where
  "drop_node state = Inr (no_update\<lparr>u_keep := Some False\<rparr>)"

definition error_handler_node :: "EvaluatorState \<Rightarrow> pyexn + Update" where
  "error_handler_node state = Inr (no_update\<lparr>u_keep := Some False\<rparr>)"

subsection \<open>Router functions\<close>

definition decision_router :: "World \<Rightarrow> EvaluatorState \<Rightarrow> string" where
  "decision_router W state =
     (if errors state \<noteq> [] then ''error_handler''
      else (case classification state of
              None \<Rightarrow> ''error_handler''
            | Some c \<Rightarrow>
                if category c = JStr ''none'' then ''drop''
                else if float_lt (confidence c) (confidence_threshold W) then ''drop''
                else ''score''))"

definition final_decision_router :: "World \<Rightarrow> EvaluatorState \<Rightarrow> string" where
  "final_decision_router W state =
     (if errors state \<noteq> [] then ''error_handler''
      else (case scoring state of
              None \<Rightarrow> ''error_handler''
            | Some sc \<Rightarrow>
                if opportunity_score sc \<ge> score_threshold W
                   \<or> recommended_next_step sc = JStr ''reach_out_now''
                then ''normalize''
                else ''drop''))"

section \<open>The graph (graphs/evaluator\_graph.py)\<close>

datatype node = Classify | ValidateEvidence | Score | Normalize | Drop | ErrorHandler

text \<open>\<open>add_node\<close>: the function behind each node.\<close>

fun node_fn :: "World \<Rightarrow> node \<Rightarrow> EvaluatorState \<Rightarrow> pyexn + Update" where
  "node_fn W Classify = classify_node W"
| "node_fn W ValidateEvidence = evidence_validation_node"
| "node_fn W Score = score_node W"
| "node_fn W Normalize = normalize_node W"
| "node_fn W Drop = drop_node"
| "node_fn W ErrorHandler = error_handler_node"

text \<open>The path maps of the two conditional edges.\<close>

definition decision_paths :: "(string \<times> node) list" where
  "decision_paths = [(''score'', Score), (''drop'', Drop), (''error_handler'', ErrorHandler)]"

definition final_decision_paths :: "(string \<times> node) list" where
  "final_decision_paths =
     [(''normalize'', Normalize), (''drop'', Drop), (''error_handler'', ErrorHandler)]"

definition follow_path :: "(string \<times> node) list \<Rightarrow> string \<Rightarrow> pyexn + node option" where
  "follow_path paths route =
     (case map_of paths route of None \<Rightarrow> Inl (KeyError route) | Some n \<Rightarrow> Inr (Some n))"

text \<open>
  The edge leaving a node, read in the state the node has just updated; \<open>None\<close> is \<open>END\<close>.
\<close>

fun next_node :: "World \<Rightarrow> node \<Rightarrow> EvaluatorState \<Rightarrow> pyexn + node option" where
  "next_node W Classify state = Inr (Some ValidateEvidence)"
| "next_node W ValidateEvidence state = follow_path decision_paths (decision_router W state)"
| "next_node W Score state = follow_path final_decision_paths (final_decision_router W state)"
| "next_node W Normalize state = Inr None"
| "next_node W Drop state = Inr None"
| "next_node W ErrorHandler state = Inr None"

text \<open>
  Running the compiled graph from a node: run the node, merge its update, follow the
  edge. The runner gives up with \<open>GraphRecursionError\<close> after \<open>recursion_limit\<close> steps.
  The result is the final state with the list of the nodes that were run, in order.
\<close>

fun run_graph ::
  "World \<Rightarrow> nat \<Rightarrow> node \<Rightarrow> EvaluatorState \<Rightarrow> node list \<Rightarrow> pyexn + (EvaluatorState \<times> node list)"
where
  "run_graph W 0 n state visited = Inl GraphRecursionError"
| "run_graph W (Suc fuel) n state visited =
     then_do (node_fn W n state) (\<lambda>u.
     then_do (next_node W n (apply_update state u)) (\<lambda>nxt.
       case nxt of
         None \<Rightarrow> Inr (apply_update state u, visited @ [n])
       | Some m \<Rightarrow> run_graph W fuel m (apply_update state u) (visited @ [n])))"

definition recursion_limit :: nat where
  "recursion_limit = 25"

definition invoke :: "World \<Rightarrow> EvaluatorState \<Rightarrow> pyexn + (EvaluatorState \<times> node list)" where
  "invoke W state = run_graph W recursion_limit Classify state []"

definition initial_state :: "ChunkData \<Rightarrow> EvaluatorState" where
  "initial_state c =
     \<lparr>chunk = c, classification = None, scoring = None, errors = [], keep = False,
      signal_record = None\<rparr>"

definition evaluate_chunk :: "World \<Rightarrow> ChunkData \<Rightarrow> pyexn + EvaluatorState" where
  "evaluate_chunk W c = then_do (invoke W (initial_state c)) (\<lambda>(final_state, visited). Inr final_state)"

section \<open>Notions used to state the properties\<close>

text \<open>
  The specification's reading of one sub-score of a breakdown object: a missing
  sub-field counts as 0, a present one is converted with \<open>int()\<close>.
\<close>

definition spec_sub_score :: "Builtins \<Rightarrow> (string \<times> json) list \<Rightarrow> string \<Rightarrow> pyexn + int" where
  "spec_sub_score B sb name = (case map_of sb name of None \<Rightarrow> Inr 0 | Some v \<Rightarrow> py_int B v)"

text \<open>
  A numeric value: a number (Python counts booleans among the integers), or a string
  that \<open>int()\<close> reads as one.
\<close>

fun is_numeric :: "Builtins \<Rightarrow> json \<Rightarrow> bool" where
  "is_numeric B (JInt i) = True"
| "is_numeric B (JFloat f) = True"
| "is_numeric B (JBool b) = True"
| "is_numeric B (JStr s) = (int_of_str B s \<noteq> None)"
| "is_numeric B JNull = False"
| "is_numeric B (JArr xs) = False"
| "is_numeric B (JObj d) = False"

section \<open>Sample inputs\<close>

definition sample_chunk :: ChunkData where
  "sample_chunk =
     \<lparr>artifact_id = ''doc1'', chunk_id = ''doc1_0'', district = ''Alpine'',
      meeting_date = None, source_url = ''http://x/doc1.pdf'', board_page_url = [],
      chunk_text = ''Board will evaluate a new literacy pilot in Q1 2026''\<rparr>"

text \<open>
  A runtime for the samples: strings are not numbers, small integers convert exactly.
\<close>

definition sample_builtins :: Builtins where
  "sample_builtins =
     \<lparr>float_of_str = (\<lambda>s. None), float_of_int = (\<lambda>i. Some (Fin (of_int i))),
      int_of_str = (\<lambda>s. None)\<rparr>"

text \<open>A world with the default thresholds whose two calls return the given outcomes.\<close>

definition sample_world :: "pyexn + json \<Rightarrow> pyexn + json \<Rightarrow> World" where
  "sample_world classify_outcome score_outcome =
     \<lparr>confidence_threshold = default_confidence_threshold,
      score_threshold = default_score_threshold,
      builtins = sample_builtins,
      classify_call = (\<lambda>c. classify_outcome),
      score_call = (\<lambda>c r. score_outcome),
      now_isoformat = ''2026-01-05T09:00:00''\<rparr>"

definition classify_response :: "json \<Rightarrow> pyfloat \<Rightarrow> json \<Rightarrow> json" where
  "classify_response cat conf snippet =
     JObj [(''category'', cat), (''confidence'', JFloat conf),
           (''evidence_snippet'', snippet), (''rationale'', JStr ''pilot planned'')]"

definition score_response :: "int \<Rightarrow> string \<Rightarrow> json" where
  "score_response n step =
     JObj [(''opportunity_score'', JInt n),
           (''score_breakdown'', JObj [(''intent_strength'', JInt 20)]),
           (''summary'', JStr ''literacy pilot''),
           (''recommended_next_step'', JStr step)]"

text \<open>The example of the specification: classified with confidence 0.82, scored 62.\<close>

definition good_classify :: json where
  "good_classify =
     classify_response (JStr ''pilot_evaluation'') (Fin (82 / 100))
       (JStr ''evaluate a new literacy pilot'')"

definition kept_world :: World where
  "kept_world = sample_world (Inr good_classify) (Inr (score_response 62 ''research_more''))"

text \<open>The classify call times out.\<close>

definition timeout_world :: World where
  "timeout_world = sample_world (Inl (CallError ''timeout'')) (Inl (CallError ''unused''))"

text \<open>The classify response has no \<open>confidence\<close>.\<close>

definition no_confidence_world :: World where
  "no_confidence_world =
     sample_world
       (Inr (JObj [(''category'', JStr ''pilot_evaluation''),
                   (''evidence_snippet'', JStr ''evaluate a new literacy pilot''),
                   (''rationale'', JStr ''pilot planned'')]))
       (Inl (CallError ''unused''))"

text \<open>The model answers "no signal" and gives \<open>null\<close> as the evidence.\<close>

definition null_snippet_world :: World where
  "null_snippet_world =
     sample_world (Inr (classify_response (JStr ''none'') (Fin (9 / 10)) JNull))
       (Inl (CallError ''unused''))"

text \<open>The state after a failed classification, as the validator receives it.\<close>

definition unclassified_state :: EvaluatorState where
  "unclassified_state =
     (initial_state sample_chunk)\<lparr>errors := [NodeExn ''classify_node'' (CallError ''timeout'')]\<rparr>"

definition sample_classification :: "json \<Rightarrow> pyfloat \<Rightarrow> json \<Rightarrow> ClassificationResult" where
  "sample_classification cat conf snippet =
     \<lparr>category = cat, confidence = conf, evidence_snippet = snippet,
      rationale = JStr ''pilot planned''\<rparr>"

definition classified_state :: "ClassificationResult \<Rightarrow> EvaluatorState" where
  "classified_state c = (initial_state sample_chunk)\<lparr>classification := Some c\<rparr>"

definition sample_scoring :: "int \<Rightarrow> string \<Rightarrow> ScoringResult" where
  "sample_scoring n step =
     \<lparr>opportunity_score = n,
      score_breakdown = \<lparr>intent_strength = 20, time_window = 0, eduquest_fit = 0,
                         evidence_quality = 0\<rparr>,
      summary = JStr ''literacy pilot'',
      recommended_next_step = JStr step\<rparr>"

definition scored_state :: "ScoringResult \<Rightarrow> EvaluatorState" where
  "scored_state sc =
     (classified_state (sample_classification (JStr ''pilot_evaluation'') (Fin (82 / 100))
                          (JStr ''evaluate a new literacy pilot'')))\<lparr>scoring := Some sc\<rparr>"

text \<open>The final states of the traversals of \<open>kept_world\<close> and \<open>timeout_world\<close>.\<close>

definition kept_final :: EvaluatorState where
  "kept_final =
     (scored_state (sample_scoring 62 ''research_more''))
       \<lparr>keep := True,
        signal_record :=
          Some \<lparr>sr_chunk_id = ''doc1_0'', sr_artifact_id = ''doc1'', sr_district = ''Alpine'',
                sr_meeting_date = None, sr_source_url = ''http://x/doc1.pdf'',
                sr_board_page_url = [],
                sr_category = JStr ''pilot_evaluation'',
                sr_confidence = Fin (82 / 100),
                sr_opportunity_score = 62,
                sr_evidence_snippet = JStr ''evaluate a new literacy pilot'',
                sr_summary = JStr ''literacy pilot'',
                sr_recommended_next_step = JStr ''research_more'',
                sr_rationale = JStr ''pilot planned'',
                sr_generated_at = ''2026-01-05T09:00:00''\<rparr>\<rparr>"

definition timeout_final :: EvaluatorState where
  "timeout_final =
     (initial_state sample_chunk)
       \<lparr>errors := [NodeExn ''classify_node'' (CallError ''timeout''),
                   Msg ''No classification to validate'']\<rparr>"

text \<open>The classification of the example, and worlds that differ in the score call only.\<close>

definition good_classification :: ClassificationResult where
  "good_classification =
     sample_classification (JStr ''pilot_evaluation'') (Fin (82 / 100))
       (JStr ''evaluate a new literacy pilot'')"

definition score_world :: "pyexn + json \<Rightarrow> World" where
  "score_world score_outcome = sample_world (Inr good_classify) score_outcome"

section \<open>Auxiliary facts\<close>

lemma starts_with_iff: "starts_with xs ys \<longleftrightarrow> (\<exists>ss. ys = xs @ ss)"
  by (induction xs ys rule: starts_with.induct) auto

lemma str_in_iff: "str_in xs ys \<longleftrightarrow> (\<exists>ps ss. ys = ps @ xs @ ss)"
proof (induction ys)
  case Nil
  show ?case by auto
next
  case (Cons y ys)
  show ?case
  proof
    assume "str_in xs (y # ys)"
    then consider "starts_with xs (y # ys)" | "str_in xs ys" by auto
    then show "\<exists>ps ss. y # ys = ps @ xs @ ss"
    proof cases
      case 1
      then obtain ss where "y # ys = xs @ ss" by (auto simp: starts_with_iff)
      then have "y # ys = [] @ xs @ ss" by simp
      then show ?thesis by blast
    next
      case 2
      with Cons.IH obtain ps ss where "ys = ps @ xs @ ss" by blast
      then have "y # ys = (y # ps) @ xs @ ss" by simp
      then show ?thesis by blast
    qed
  next
    assume "\<exists>ps ss. y # ys = ps @ xs @ ss"
    then obtain ps ss where eq: "y # ys = ps @ xs @ ss" by blast
    show "str_in xs (y # ys)"
    proof (cases ps)
      case Nil
      with eq have "starts_with xs (y # ys)" by (auto simp: starts_with_iff)
      then show ?thesis by simp
    next
      case (Cons p ps')
      with eq have "ys = ps' @ xs @ ss" by simp
      with Cons.IH have "str_in xs ys" by blast
      then show ?thesis by simp
    qed
  qed
qed

lemma float_lt_irrefl: "\<not> float_lt a a"
  by (cases a) auto

lemma then_do_Inr_iff: "then_do m f = Inr y \<longleftrightarrow> (\<exists>v. m = Inr v \<and> f v = Inr y)"
  by (cases m) (auto simp: then_do_def)

lemma then_do_simps [simp]: "then_do (Inl e) f = Inl e" "then_do (Inr v) f = f v"
  by (simp_all add: then_do_def)

lemma py_getitem_Inr: "py_getitem r k = Inr v \<Longrightarrow> \<exists>d. r = JObj d \<and> map_of d k = Some v"
  by (cases r) (auto split: option.splits)

lemma classify_body_Inr:
  assumes "classify_body W s = Inr u"
  shows "\<exists>d cat raw conf sn ra.
           classify_call W (chunk s) = Inr (JObj d)
           \<and> map_of d ''category'' = Some cat \<and> map_of d ''confidence'' = Some raw
           \<and> py_float (builtins W) raw = Inr conf
           \<and> map_of d ''evidence_snippet'' = Some sn \<and> map_of d ''rationale'' = Some ra
           \<and> u = no_update\<lparr>u_classification :=
                    Some \<lparr>category = cat, confidence = conf,
                          evidence_snippet = sn, rationale = ra\<rparr>\<rparr>"
  using assms unfolding classify_body_def then_do_Inr_iff
  by (fastforce dest!: py_getitem_Inr)

lemma classify_node_cases:
  obtains (classified) c where "classify_node W s = Inr (no_update\<lparr>u_classification := Some c\<rparr>)"
  | (failed) e where
      "classify_node W s = Inr (no_update\<lparr>u_errors := Some (errors s @ [NodeExn ''classify_node'' e])\<rparr>)"
proof (cases "classify_body W s")
  case (Inl e)
  then show ?thesis by (intro failed[of e]) (simp add: classify_node_def)
next
  case (Inr u)
  from classify_body_Inr[OF Inr] obtain c where "u = no_update\<lparr>u_classification := Some c\<rparr>"
    by blast
  with Inr show ?thesis by (intro classified[of c]) (simp add: classify_node_def)
qed

lemma score_body_Inr:
  assumes "score_body W s = Inr u"
  shows "\<exists>sc. u = no_update\<lparr>u_scoring := Some sc\<rparr>"
  using assms by (auto simp: score_body_def then_do_Inr_iff split: option.splits)

lemma score_node_cases:
  obtains (scored) sc where "score_node W s = Inr (no_update\<lparr>u_scoring := Some sc\<rparr>)"
  | (failed) e where
      "score_node W s = Inr (no_update\<lparr>u_errors := Some (errors s @ [NodeExn ''score_node'' e])\<rparr>)"
proof (cases "score_body W s")
  case (Inl e)
  then show ?thesis by (intro failed[of e]) (simp add: score_node_def)
next
  case (Inr u)
  from score_body_Inr[OF Inr] obtain sc where "u = no_update\<lparr>u_scoring := Some sc\<rparr>"
    by blast
  with Inr show ?thesis by (intro scored[of sc]) (simp add: score_node_def)
qed

lemma run_score:
  assumes "classification s = Some c" and "errors s = []"
  shows "(\<exists>e. run_graph W (Suc (Suc k)) Score s v =
            Inr (s\<lparr>errors := [NodeExn ''score_node'' e], keep := False\<rparr>,
                 v @ [Score, ErrorHandler]))
       \<or> (\<exists>sc. \<not> (score_threshold W \<le> opportunity_score sc
                    \<or> recommended_next_step sc = JStr ''reach_out_now'')
              \<and> run_graph W (Suc (Suc k)) Score s v =
                  Inr (s\<lparr>scoring := Some sc, keep := False\<rparr>, v @ [Score, Drop]))
       \<or> (\<exists>sc r. (score_threshold W \<le> opportunity_score sc
                    \<or> recommended_next_step sc = JStr ''reach_out_now'')
              \<and> sr_evidence_snippet r = evidence_snippet c
              \<and> sr_category r = category c
              \<and> run_graph W (Suc (Suc k)) Score s v =
                  Inr (s\<lparr>scoring := Some sc, keep := True, signal_record := Some r\<rparr>,
                       v @ [Score, Normalize]))"
proof (cases rule: score_node_cases[of W s])
  case (failed e)
  then have "run_graph W (Suc (Suc k)) Score s v =
            Inr (s\<lparr>errors := [NodeExn ''score_node'' e], keep := False\<rparr>,
                 v @ [Score, ErrorHandler])"
    using assms
    by (simp add: error_handler_node_def final_decision_router_def follow_path_def
        final_decision_paths_def apply_update_def no_update_def)
  then show ?thesis by blast
next
  case (scored sc)
  show ?thesis
  proof (cases "score_threshold W \<le> opportunity_score sc
                    \<or> recommended_next_step sc = JStr ''reach_out_now''")
    case True
    let ?r = "\<lparr>sr_chunk_id = chunk_id (chunk s),
               sr_artifact_id = artifact_id (chunk s),
               sr_district = district (chunk s),
               sr_meeting_date = meeting_date (chunk s),
               sr_source_url = source_url (chunk s),
               sr_board_page_url = board_page_url (chunk s),
               sr_category = category c,
               sr_confidence = confidence c,
               sr_opportunity_score = opportunity_score sc,
               sr_evidence_snippet = evidence_snippet c,
               sr_summary = summary sc,
               sr_recommended_next_step = recommended_next_step sc,
               sr_rationale = rationale c,
               sr_generated_at = now_isoformat W\<rparr>"
    have "run_graph W (Suc (Suc k)) Score s v =
            Inr (s\<lparr>scoring := Some sc, keep := True, signal_record := Some ?r\<rparr>,
                 v @ [Score, Normalize])"
      using True scored assms
      by (simp add: normalize_node_def final_decision_router_def follow_path_def
          final_decision_paths_def apply_update_def no_update_def)
    moreover have "sr_evidence_snippet ?r = evidence_snippet c" "sr_category ?r = category c"
      by simp_all
    ultimately show ?thesis using True by blast
  next
    case False
    have "run_graph W (Suc (Suc k)) Score s v =
            Inr (s\<lparr>scoring := Some sc, keep := False\<rparr>, v @ [Score, Drop])"
      using False scored assms
      by (simp add: drop_node_def final_decision_router_def follow_path_def
          final_decision_paths_def apply_update_def no_update_def)
    with False show ?thesis by blast
  qed
qed


lemma invoke_fuel:
  "invoke W s = run_graph W (Suc (Suc (Suc (Suc 21)))) Classify s []"
  by (simp add: invoke_def recursion_limit_def)

lemma run_classify_failed:
  assumes "classify_node W (initial_state ch) =
             Inr (no_update\<lparr>u_errors := Some (errors (initial_state ch) @ [NodeExn ''classify_node'' e])\<rparr>)"
  shows "run_graph W (Suc (Suc (Suc k))) Classify (initial_state ch) [] =
           Inr ((initial_state ch)
                  \<lparr>errors := [NodeExn ''classify_node'' e, Msg ''No classification to validate'']\<rparr>,
                [Classify, ValidateEvidence, ErrorHandler])"
  using assms
  by (simp add: initial_state_def evidence_validation_node_def
      error_handler_node_def decision_router_def follow_path_def decision_paths_def
      apply_update_def no_update_def)

lemma run_snippet_not_str:
  assumes "classify_node W (initial_state ch) = Inr (no_update\<lparr>u_classification := Some c\<rparr>)"
    and "\<forall>sn. evidence_snippet c \<noteq> JStr sn"
  shows "run_graph W (Suc (Suc k)) Classify (initial_state ch) [] = Inl TypeError"
  using assms
  by (cases "evidence_snippet c")
     (simp_all add: initial_state_def evidence_validation_node_def
      apply_update_def no_update_def)

lemma run_snippet_absent:
  assumes "classify_node W (initial_state ch) = Inr (no_update\<lparr>u_classification := Some c\<rparr>)"
    and "evidence_snippet c = JStr sn" and "\<not> str_in sn (chunk_text ch)"
  shows "run_graph W (Suc (Suc (Suc k))) Classify (initial_state ch) [] =
           Inr ((initial_state ch)
                  \<lparr>classification := Some c,
                   errors := [Msg ''Evidence snippet not found verbatim in chunk text'']\<rparr>,
                [Classify, ValidateEvidence, ErrorHandler])"
  using assms
  by (simp add: initial_state_def evidence_validation_node_def
      error_handler_node_def decision_router_def follow_path_def decision_paths_def
      apply_update_def no_update_def)

lemma run_policy_drop:
  assumes "classify_node W (initial_state ch) = Inr (no_update\<lparr>u_classification := Some c\<rparr>)"
    and "evidence_snippet c = JStr sn" and "str_in sn (chunk_text ch)"
    and "category c = JStr ''none'' \<or> float_lt (confidence c) (confidence_threshold W)"
  shows "run_graph W (Suc (Suc (Suc k))) Classify (initial_state ch) [] =
           Inr ((initial_state ch)\<lparr>classification := Some c\<rparr>,
                [Classify, ValidateEvidence, Drop])"
  using assms
  by (auto simp add: initial_state_def evidence_validation_node_def
      drop_node_def decision_router_def follow_path_def decision_paths_def
      apply_update_def no_update_def)

lemma run_to_score:
  assumes "classify_node W (initial_state ch) = Inr (no_update\<lparr>u_classification := Some c\<rparr>)"
    and "evidence_snippet c = JStr sn" and "str_in sn (chunk_text ch)"
    and "category c \<noteq> JStr ''none''"
    and "\<not> float_lt (confidence c) (confidence_threshold W)"
  shows "run_graph W (Suc (Suc k)) Classify (initial_state ch) [] =
           run_graph W k Score ((initial_state ch)\<lparr>classification := Some c\<rparr>)
             [Classify, ValidateEvidence]"
  using assms
  by (simp add: initial_state_def evidence_validation_node_def
      decision_router_def follow_path_def decision_paths_def
      apply_update_def no_update_def)


lemma traversal_outcome:
  assumes run: "invoke W (initial_state ch) = Inr (s, tr)"
  shows "chunk s = ch \<and>
    ((tr = [Classify, ValidateEvidence, ErrorHandler]
        \<and> errors s \<noteq> [] \<and> \<not> keep s \<and> signal_record s = None \<and> scoring s = None)
   \<or> (tr = [Classify, ValidateEvidence, Drop]
        \<and> errors s = [] \<and> \<not> keep s \<and> signal_record s = None \<and> scoring s = None
        \<and> (\<exists>c. classification s = Some c
              \<and> (category c = JStr ''none''
                  \<or> float_lt (confidence c) (confidence_threshold W))))
   \<or> (tr = [Classify, ValidateEvidence, Score, ErrorHandler]
        \<and> errors s \<noteq> [] \<and> \<not> keep s \<and> signal_record s = None \<and> scoring s = None)
   \<or> (tr = [Classify, ValidateEvidence, Score, Drop]
        \<and> errors s = [] \<and> \<not> keep s \<and> signal_record s = None
        \<and> (\<exists>sc. scoring s = Some sc
              \<and> \<not> (score_threshold W \<le> opportunity_score sc
                     \<or> recommended_next_step sc = JStr ''reach_out_now'')))
   \<or> (tr = [Classify, ValidateEvidence, Score, Normalize]
        \<and> errors s = [] \<and> keep s
        \<and> (\<exists>c sc r sn. classification s = Some c \<and> scoring s = Some sc
              \<and> signal_record s = Some r
              \<and> category c \<noteq> JStr ''none''
              \<and> \<not> float_lt (confidence c) (confidence_threshold W)
              \<and> (score_threshold W \<le> opportunity_score sc
                     \<or> recommended_next_step sc = JStr ''reach_out_now'')
              \<and> evidence_snippet c = JStr sn \<and> sr_evidence_snippet r = JStr sn
              \<and> sr_category r = category c
              \<and> str_in sn (chunk_text ch))))"
proof (cases rule: classify_node_cases[of W "initial_state ch"])
  case (failed e)
  from run[unfolded invoke_fuel] run_classify_failed[OF failed, of "Suc 21"]
  have "s = (initial_state ch)
              \<lparr>errors := [NodeExn ''classify_node'' e, Msg ''No classification to validate'']\<rparr>"
    and "tr = [Classify, ValidateEvidence, ErrorHandler]"
    by simp_all
  then show ?thesis by (simp add: initial_state_def)
next
  case (classified c)
  show ?thesis
  proof (cases "\<exists>sn. evidence_snippet c = JStr sn")
    case False
    then have "\<forall>sn. evidence_snippet c \<noteq> JStr sn" by blast
    from run_snippet_not_str[OF classified this, of "Suc (Suc 21)"] run[unfolded invoke_fuel]
    show ?thesis by simp
  next
    case True
    then obtain sn where sn: "evidence_snippet c = JStr sn" by blast
    show ?thesis
    proof (cases "str_in sn (chunk_text ch)")
      case False
      from run_snippet_absent[OF classified sn False, of "Suc 21"] run[unfolded invoke_fuel]
      have "s = (initial_state ch)
                  \<lparr>classification := Some c,
                   errors := [Msg ''Evidence snippet not found verbatim in chunk text'']\<rparr>"
        and "tr = [Classify, ValidateEvidence, ErrorHandler]"
        by simp_all
      then show ?thesis by (simp add: initial_state_def)
    next
      case present: True
      show ?thesis
      proof (cases "category c = JStr ''none''
                    \<or> float_lt (confidence c) (confidence_threshold W)")
        case True
        from run_policy_drop[OF classified sn present True, of "Suc 21"] run[unfolded invoke_fuel]
        have "s = (initial_state ch)\<lparr>classification := Some c\<rparr>"
          and "tr = [Classify, ValidateEvidence, Drop]"
          by simp_all
        with True show ?thesis by (simp add: initial_state_def)
      next
        case False
        then have nn: "category c \<noteq> JStr ''none''"
          and ge: "\<not> float_lt (confidence c) (confidence_threshold W)" by auto
        let ?s1 = "(initial_state ch)\<lparr>classification := Some c\<rparr>"
        let ?v = "[Classify, ValidateEvidence]"
        have to: "run_graph W (Suc (Suc 21)) Score ?s1 ?v = Inr (s, tr)"
          using run unfolding invoke_fuel run_to_score[OF classified sn present nn ge] .
        have c1: "classification ?s1 = Some c" and e1: "errors ?s1 = []"
          by (simp_all add: initial_state_def)
        from run_score[OF c1 e1, of W 21 ?v]
        consider (err) e where "run_graph W (Suc (Suc 21)) Score ?s1 ?v =
              Inr (?s1\<lparr>errors := [NodeExn ''score_node'' e], keep := False\<rparr>,
                   ?v @ [Score, ErrorHandler])"
          | (low) sc where "\<not> (score_threshold W \<le> opportunity_score sc
                    \<or> recommended_next_step sc = JStr ''reach_out_now'')"
              "run_graph W (Suc (Suc 21)) Score ?s1 ?v =
                  Inr (?s1\<lparr>scoring := Some sc, keep := False\<rparr>, ?v @ [Score, Drop])"
          | (kept) sc r where "score_threshold W \<le> opportunity_score sc
                    \<or> recommended_next_step sc = JStr ''reach_out_now''"
              "sr_evidence_snippet r = evidence_snippet c" "sr_category r = category c"
              "run_graph W (Suc (Suc 21)) Score ?s1 ?v =
                  Inr (?s1\<lparr>scoring := Some sc, keep := True, signal_record := Some r\<rparr>,
                       ?v @ [Score, Normalize])"
          by blast
        then show ?thesis
        proof cases
          case err
          with to have "s = ?s1\<lparr>errors := [NodeExn ''score_node'' e], keep := False\<rparr>"
            and "tr = [Classify, ValidateEvidence, Score, ErrorHandler]"
            by simp_all
          then show ?thesis by (simp add: initial_state_def)
        next
          case low
          with to have "s = ?s1\<lparr>scoring := Some sc, keep := False\<rparr>"
            and "tr = [Classify, ValidateEvidence, Score, Drop]"
            by simp_all
          with low(1) show ?thesis by (simp add: initial_state_def)
        next
          case kept
          with to have "s = ?s1\<lparr>scoring := Some sc, keep := True, signal_record := Some r\<rparr>"
            and "tr = [Classify, ValidateEvidence, Score, Normalize]"
            by simp_all
          with kept(1,2,3) nn ge sn present show ?thesis by (simp add: initial_state_def)
        qed
      qed
    qed
  qed
qed

lemma traversal_raises:
  assumes "invoke W (initial_state ch) = Inl e"
  shows "e = TypeError \<and>
         (\<exists>c. classify_node W (initial_state ch) = Inr (no_update\<lparr>u_classification := Some c\<rparr>)
              \<and> (\<forall>sn. evidence_snippet c \<noteq> JStr sn))"
proof (cases rule: classify_node_cases[of W "initial_state ch"])
  case (failed e')
  from run_classify_failed[OF failed, of "Suc 21"] assms[unfolded invoke_fuel] show ?thesis
    by simp
next
  case (classified c)
  show ?thesis
  proof (cases "\<exists>sn. evidence_snippet c = JStr sn")
    case False
    then have ns: "\<forall>sn. evidence_snippet c \<noteq> JStr sn" by blast
    from run_snippet_not_str[OF classified this, of "Suc (Suc 21)"] assms[unfolded invoke_fuel]
    have "e = TypeError" by simp
    with classified ns show ?thesis by blast
  next
    case True
    then obtain sn where sn: "evidence_snippet c = JStr sn" by blast
    show ?thesis
    proof (cases "str_in sn (chunk_text ch)")
      case False
      from run_snippet_absent[OF classified sn False, of "Suc 21"] assms[unfolded invoke_fuel]
      show ?thesis by simp
    next
      case present: True
      show ?thesis
      proof (cases "category c = JStr ''none''
                    \<or> float_lt (confidence c) (confidence_threshold W)")
        case True
        from run_policy_drop[OF classified sn present True, of "Suc 21"] assms[unfolded invoke_fuel]
        show ?thesis by simp
      next
        case False
        then have nn: "category c \<noteq> JStr ''none''"
          and ge: "\<not> float_lt (confidence c) (confidence_threshold W)" by auto
        let ?s1 = "(initial_state ch)\<lparr>classification := Some c\<rparr>"
        let ?v = "[Classify, ValidateEvidence]"
        have to: "run_graph W (Suc (Suc 21)) Score ?s1 ?v = Inl e"
          using assms unfolding invoke_fuel run_to_score[OF classified sn present nn ge] .
        have c1: "classification ?s1 = Some c" and e1: "errors ?s1 = []"
          by (simp_all add: initial_state_def)
        from run_score[OF c1 e1, of W 21 ?v] to show ?thesis
          by (elim disjE exE conjE) simp_all
      qed
    qed
  qed
qed

lemma check_required_obj:
  "check_required fs (JObj d) =
     (case find (\<lambda>f. map_of d f = None) fs of
        None \<Rightarrow> Inr ()
      | Some f \<Rightarrow> Inl (ValueErrorMsg (''Missing required field in classification: '' @ f)))"
  by (induction fs) auto

lemma classify_body_complete:
  assumes "classify_call W (chunk s) = Inr (JObj d)"
    and "map_of d ''category'' = Some cat" and "map_of d ''confidence'' = Some raw"
    and "py_float (builtins W) raw = Inr conf"
    and "map_of d ''evidence_snippet'' = Some sn" and "map_of d ''rationale'' = Some ra"
  shows "classify_body W s = Inr (no_update\<lparr>u_classification :=
                    Some \<lparr>category = cat, confidence = conf,
                          evidence_snippet = sn, rationale = ra\<rparr>\<rparr>)"
  using assms by (simp add: classify_body_def check_required_obj required_fields_def)

lemma classify_body_missing:
  assumes "classify_call W (chunk s) = Inr (JObj d)"
    and "f \<in> set required_fields" and "map_of d f = None"
  shows "\<exists>g \<in> set required_fields. map_of d g = None \<and>
           classify_body W s =
             Inl (ValueErrorMsg (''Missing required field in classification: '' @ g))"
proof -
  from assms(2,3) obtain g where g: "find (\<lambda>f. map_of d f = None) required_fields = Some g"
    by (cases "find (\<lambda>f. map_of d f = None) required_fields") (auto simp: find_None_iff)
  then have "g \<in> set required_fields" "map_of d g = None"
    by (auto simp: find_Some_iff)
  moreover have "classify_body W s =
      Inl (ValueErrorMsg (''Missing required field in classification: '' @ g))"
    using assms(1) g by (simp add: classify_body_def check_required_obj)
  ultimately show ?thesis by blast
qed


lemma run_graph_numeral:
  "run_graph W (numeral k) n state visited =
     then_do (node_fn W n state) (\<lambda>u.
     then_do (next_node W n (apply_update state u)) (\<lambda>nxt.
       case nxt of
         None \<Rightarrow> Inr (apply_update state u, visited @ [n])
       | Some m \<Rightarrow> run_graph W (pred_numeral k) m (apply_update state u) (visited @ [n])))"
  by (simp add: numeral_eq_Suc)

lemmas sample_defs =
  kept_world_def timeout_world_def no_confidence_world_def null_snippet_world_def
  sample_world_def sample_builtins_def sample_chunk_def classify_response_def
  score_response_def good_classify_def default_confidence_threshold_def
  default_score_threshold_def unclassified_state_def sample_classification_def
  classified_state_def sample_scoring_def scored_state_def kept_final_def
  timeout_final_def good_classification_def score_world_def

lemmas model_defs =
  invoke_def recursion_limit_def run_graph_numeral initial_state_def
  classify_node_def classify_body_def required_fields_def
  evidence_validation_node_def score_node_def score_body_def sub_score_def
  normalize_node_def drop_node_def error_handler_node_def
  decision_router_def final_decision_router_def follow_path_def decision_paths_def
  final_decision_paths_def apply_update_def no_update_def

section \<open>The two routers\<close>

text \<open>
  C2. The post-validation decision router decides in this order: any accumulated error
  routes to \<open>error_handler\<close>; otherwise a missing classification routes to
  \<open>error_handler\<close>; otherwise category \<open>"none"\<close> routes to \<open>drop\<close>, whatever the
  confidence; otherwise a confidence strictly below the threshold routes to \<open>drop\<close>;
  otherwise the unit goes to \<open>score\<close>. A confidence equal to the threshold is scored.
\<close>

theorem decision_router_order:
  "(errors state \<noteq> [] \<longrightarrow> decision_router W state = ''error_handler'')
   \<and> (errors state = [] \<and> classification state = None
        \<longrightarrow> decision_router W state = ''error_handler'')
   \<and> (errors state = [] \<and> classification state = Some c \<and> category c = JStr ''none''
        \<longrightarrow> decision_router W state = ''drop'')
   \<and> (errors state = [] \<and> classification state = Some c \<and> category c \<noteq> JStr ''none''
        \<and> float_lt (confidence c) (confidence_threshold W)
        \<longrightarrow> decision_router W state = ''drop'')
   \<and> (errors state = [] \<and> classification state = Some c \<and> category c \<noteq> JStr ''none''
        \<and> \<not> float_lt (confidence c) (confidence_threshold W)
        \<longrightarrow> decision_router W state = ''score'')
   \<and> (errors state = [] \<and> classification state = Some c \<and> category c \<noteq> JStr ''none''
        \<and> confidence c = confidence_threshold W
        \<longrightarrow> decision_router W state = ''score'')"
  by (simp add: decision_router_def float_lt_irrefl)

text \<open>
  With the default threshold 0.7: an errored state and an unclassified state go to the
  error handler; category "none" with confidence 0.95 is dropped; confidence 0.5 is
  dropped; confidence 0.82 and confidence exactly 0.7 are scored.
\<close>

theorem decision_router_order_witness:
  "decision_router kept_world unclassified_state = ''error_handler''
   \<and> decision_router kept_world (initial_state sample_chunk) = ''error_handler''
   \<and> decision_router kept_world
        (classified_state (sample_classification (JStr ''none'') (Fin (95 / 100)) (JStr [])))
       = ''drop''
   \<and> decision_router kept_world
        (classified_state
           (sample_classification (JStr ''pilot_evaluation'') (Fin (5 / 10)) (JStr [])))
       = ''drop''
   \<and> decision_router kept_world
        (classified_state
           (sample_classification (JStr ''pilot_evaluation'') (Fin (82 / 100)) (JStr [])))
       = ''score''
   \<and> decision_router kept_world
        (classified_state
           (sample_classification (JStr ''pilot_evaluation'') (Fin (7 / 10)) (JStr [])))
       = ''score''"
proof -
  let ?none = "sample_classification (JStr ''none'') (Fin (95 / 100)) (JStr [])"
  let ?low = "sample_classification (JStr ''pilot_evaluation'') (Fin (5 / 10)) (JStr [])"
  let ?high = "sample_classification (JStr ''pilot_evaluation'') (Fin (82 / 100)) (JStr [])"
  let ?edge = "sample_classification (JStr ''pilot_evaluation'') (Fin (7 / 10)) (JStr [])"
  have h1: "errors unclassified_state \<noteq> []"
    by (simp add: sample_defs initial_state_def)
  have h2: "errors (initial_state sample_chunk) = []
            \<and> classification (initial_state sample_chunk) = None"
    by (simp add: initial_state_def)
  have h3: "errors (classified_state ?none) = []
            \<and> classification (classified_state ?none) = Some ?none
            \<and> category ?none = JStr ''none''"
    by (simp add: sample_defs initial_state_def)
  have h4: "errors (classified_state ?low) = []
            \<and> classification (classified_state ?low) = Some ?low
            \<and> category ?low \<noteq> JStr ''none''
            \<and> float_lt (confidence ?low) (confidence_threshold kept_world)"
    by (simp add: sample_defs initial_state_def)
  have h5: "errors (classified_state ?high) = []
            \<and> classification (classified_state ?high) = Some ?high
            \<and> category ?high \<noteq> JStr ''none''
            \<and> \<not> float_lt (confidence ?high) (confidence_threshold kept_world)"
    by (simp add: sample_defs initial_state_def)
  have h6: "errors (classified_state ?edge) = []
            \<and> classification (classified_state ?edge) = Some ?edge
            \<and> category ?edge \<noteq> JStr ''none''
            \<and> confidence ?edge = confidence_threshold kept_world"
    by (simp add: sample_defs initial_state_def)
  have r1: "decision_router kept_world unclassified_state = ''error_handler''"
    using decision_router_order[of unclassified_state kept_world ?none] h1 by simp
  have r2: "decision_router kept_world (initial_state sample_chunk) = ''error_handler''"
    using decision_router_order[of "initial_state sample_chunk" kept_world ?none] h2 by simp
  have r3: "decision_router kept_world (classified_state ?none) = ''drop''"
    using decision_router_order[of "classified_state ?none" kept_world ?none] h3 by simp
  have r4: "decision_router kept_world (classified_state ?low) = ''drop''"
    using decision_router_order[of "classified_state ?low" kept_world ?low] h4 by simp
  have r5: "decision_router kept_world (classified_state ?high) = ''score''"
    using decision_router_order[of "classified_state ?high" kept_world ?high] h5 by simp
  have r6: "decision_router kept_world (classified_state ?edge) = ''score''"
    using decision_router_order[of "classified_state ?edge" kept_world ?edge] h6 by simp
  from r1 r2 r3 r4 r5 r6 show ?thesis by (intro conjI)
qed

text \<open>
  C3. The final decision router sends a state with accumulated errors, or without a
  scoring result, to \<open>error_handler\<close>. Otherwise it routes to \<open>normalize\<close> exactly when
  the opportunity score is at least the score threshold or the recommended next step
  is \<open>"reach_out_now"\<close>, and to \<open>drop\<close> in every other case.
\<close>

theorem final_decision_router_rule:
  "(errors state \<noteq> [] \<longrightarrow> final_decision_router W state = ''error_handler'')
   \<and> (scoring state = None \<longrightarrow> final_decision_router W state = ''error_handler'')
   \<and> (errors state = [] \<and> scoring state = Some sc \<longrightarrow>
        (final_decision_router W state = ''normalize''
           \<longleftrightarrow> score_threshold W \<le> opportunity_score sc
                \<or> recommended_next_step sc = JStr ''reach_out_now'')
        \<and> (final_decision_router W state = ''drop''
           \<longleftrightarrow> \<not> (score_threshold W \<le> opportunity_score sc
                   \<or> recommended_next_step sc = JStr ''reach_out_now'')))"
  by (simp add: final_decision_router_def)

text \<open>
  With the default threshold 50: a score of exactly 50 is normalized, a score of 10
  with "reach_out_now" is normalized, a score of 49 with "monitor" is dropped, and an
  errored or unscored state goes to the error handler.
\<close>

theorem final_decision_router_rule_witness:
  "final_decision_router kept_world unclassified_state = ''error_handler''
   \<and> final_decision_router kept_world (initial_state sample_chunk) = ''error_handler''
   \<and> final_decision_router kept_world (scored_state (sample_scoring 50 ''monitor''))
       = ''normalize''
   \<and> final_decision_router kept_world (scored_state (sample_scoring 10 ''reach_out_now''))
       = ''normalize''
   \<and> final_decision_router kept_world (scored_state (sample_scoring 49 ''monitor''))
       = ''drop''"
proof -
  let ?edge = "sample_scoring 50 ''monitor''"
  let ?rescued = "sample_scoring 10 ''reach_out_now''"
  let ?low = "sample_scoring 49 ''monitor''"
  have h1: "errors unclassified_state \<noteq> []"
    by (simp add: sample_defs initial_state_def)
  have h2: "scoring (initial_state sample_chunk) = None"
    by (simp add: initial_state_def)
  have h3: "errors (scored_state ?edge) = [] \<and> scoring (scored_state ?edge) = Some ?edge
            \<and> score_threshold kept_world \<le> opportunity_score ?edge"
    by (simp add: sample_defs initial_state_def)
  have h4: "errors (scored_state ?rescued) = []
            \<and> scoring (scored_state ?rescued) = Some ?rescued
            \<and> \<not> score_threshold kept_world \<le> opportunity_score ?rescued
            \<and> recommended_next_step ?rescued = JStr ''reach_out_now''"
    by (simp add: sample_defs initial_state_def)
  have h5: "errors (scored_state ?low) = [] \<and> scoring (scored_state ?low) = Some ?low
            \<and> \<not> score_threshold kept_world \<le> opportunity_score ?low
            \<and> recommended_next_step ?low \<noteq> JStr ''reach_out_now''"
    by (simp add: sample_defs initial_state_def)
  have r1: "final_decision_router kept_world unclassified_state = ''error_handler''"
    using final_decision_router_rule[of unclassified_state kept_world ?edge] h1 by simp
  have r2: "final_decision_router kept_world (initial_state sample_chunk) = ''error_handler''"
    using final_decision_router_rule[of "initial_state sample_chunk" kept_world ?edge] h2
    by simp
  have r3: "final_decision_router kept_world (scored_state ?edge) = ''normalize''"
    using final_decision_router_rule[of "scored_state ?edge" kept_world ?edge] h3 by simp
  have r4: "final_decision_router kept_world (scored_state ?rescued) = ''normalize''"
    using final_decision_router_rule[of "scored_state ?rescued" kept_world ?rescued] h4
    by simp
  have r5: "final_decision_router kept_world (scored_state ?low) = ''drop''"
    using final_decision_router_rule[of "scored_state ?low" kept_world ?low] h5 by simp
  from r1 r2 r3 r4 r5 show ?thesis by (intro conjI)
qed

section \<open>The evidence validation stage\<close>

text \<open>
  C10. When the snippet is a string that occurs verbatim in the chunk text, the
  evidence validation stage returns the empty update, and merging it leaves every
  field of the state as it was.
\<close>

theorem evidence_validation_pass_unchanged:
  assumes "classification state = Some c"
    and "evidence_snippet c = JStr snippet"
    and "chunk_text (chunk state) = before @ snippet @ after"
  shows "evidence_validation_node state = Inr no_update
         \<and> apply_update state no_update = state"
proof -
  from assms(3) have "str_in snippet (chunk_text (chunk state))"
    unfolding str_in_iff by blast
  with assms(1,2) have "evidence_validation_node state = Inr no_update"
    by (simp add: evidence_validation_node_def)
  moreover have "apply_update state no_update = state"
    by (simp add: apply_update_def no_update_def)
  ultimately show ?thesis ..
qed

theorem evidence_validation_pass_unchanged_witness:
  "evidence_validation_node
     (classified_state
        (sample_classification (JStr ''pilot_evaluation'') (Fin (82 / 100))
           (JStr ''evaluate a new literacy pilot'')))
     = Inr no_update
   \<and> apply_update
       (classified_state
          (sample_classification (JStr ''pilot_evaluation'') (Fin (82 / 100))
             (JStr ''evaluate a new literacy pilot'')))
       no_update
     = classified_state
         (sample_classification (JStr ''pilot_evaluation'') (Fin (82 / 100))
            (JStr ''evaluate a new literacy pilot''))"
proof -
  let ?c = "sample_classification (JStr ''pilot_evaluation'') (Fin (82 / 100))
              (JStr ''evaluate a new literacy pilot'')"
  have h1: "classification (classified_state ?c) = Some ?c"
    by (simp add: sample_defs initial_state_def)
  have h2: "evidence_snippet ?c = JStr ''evaluate a new literacy pilot''"
    by (simp add: sample_defs)
  have h3: "chunk_text (chunk (classified_state ?c))
            = ''Board will '' @ ''evaluate a new literacy pilot'' @ '' in Q1 2026''"
    by (simp add: sample_defs initial_state_def)
  from evidence_validation_pass_unchanged[OF h1 h2 h3] show ?thesis .
qed

text \<open>
  C6, as the code has it. When the classification is absent, or the snippet is a string
  that does not occur verbatim in the chunk text, the evidence validation stage appends
  one error message to the error list and also writes \<open>keep = False\<close> in its update;
  it writes no other key. The router that follows sends the updated state to the
  error handler.
\<close>

theorem evidence_validation_failure_update:
  "(classification state = None \<longrightarrow>
      evidence_validation_node state =
        Inr (no_update\<lparr>u_errors := Some (errors state @ [Msg ''No classification to validate'']),
                       u_keep := Some False\<rparr>))
   \<and> (classification state = Some c \<and> evidence_snippet c = JStr snippet
        \<and> \<not> (\<exists>before after. chunk_text (chunk state) = before @ snippet @ after) \<longrightarrow>
      evidence_validation_node state =
        Inr (no_update\<lparr>u_errors :=
                         Some (errors state
                               @ [Msg ''Evidence snippet not found verbatim in chunk text'']),
                       u_keep := Some False\<rparr>))
   \<and> (evidence_validation_node state = Inr u \<and> u \<noteq> no_update \<longrightarrow>
        (\<exists>m. u = no_update\<lparr>u_errors := Some (errors state @ [Msg m]), u_keep := Some False\<rparr>)
        \<and> decision_router W (apply_update state u) = ''error_handler'')"
proof (intro conjI impI)
  assume "classification state = None"
  then show "evidence_validation_node state =
        Inr (no_update\<lparr>u_errors := Some (errors state @ [Msg ''No classification to validate'']),
                       u_keep := Some False\<rparr>)"
    by (simp add: evidence_validation_node_def)
next
  assume a: "classification state = Some c \<and> evidence_snippet c = JStr snippet
        \<and> \<not> (\<exists>before after. chunk_text (chunk state) = before @ snippet @ after)"
  then have "\<not> str_in snippet (chunk_text (chunk state))"
    unfolding str_in_iff by blast
  with a show "evidence_validation_node state =
        Inr (no_update\<lparr>u_errors :=
                         Some (errors state
                               @ [Msg ''Evidence snippet not found verbatim in chunk text'']),
                       u_keep := Some False\<rparr>)"
    by (simp add: evidence_validation_node_def)
next
  assume a: "evidence_validation_node state = Inr u \<and> u \<noteq> no_update"
  then show "\<exists>m. u = no_update\<lparr>u_errors := Some (errors state @ [Msg m]), u_keep := Some False\<rparr>"
    by (auto simp: evidence_validation_node_def split: option.splits json.splits if_splits)
  then show "decision_router W (apply_update state u) = ''error_handler''"
    by (auto simp: decision_router_def apply_update_def no_update_def)
qed

text \<open>
  The claim as written fails: for the state left by a failed classification the
  validator's update carries the key \<open>keep\<close>, with the value \<open>False\<close>.
\<close>

theorem evidence_validation_writes_keep:
  "classification unclassified_state = None
   \<and> map_sum id u_keep (evidence_validation_node unclassified_state) = Inr (Some False)"
  by (simp add: sample_defs initial_state_def evidence_validation_node_def no_update_def)

theorem evidence_validation_failure_update_witness:
  "evidence_validation_node unclassified_state =
     Inr (no_update\<lparr>u_errors := Some (errors unclassified_state
                                        @ [Msg ''No classification to validate'']),
                    u_keep := Some False\<rparr>)
   \<and> evidence_validation_node
       (classified_state
          (sample_classification (JStr ''pilot_evaluation'') (Fin (82 / 100))
             (JStr ''adopt a new curriculum'')))
     = Inr (no_update\<lparr>u_errors :=
                         Some [Msg ''Evidence snippet not found verbatim in chunk text''],
                       u_keep := Some False\<rparr>)
   \<and> decision_router kept_world
       (apply_update unclassified_state
          (no_update\<lparr>u_errors := Some (errors unclassified_state
                                           @ [Msg ''No classification to validate'']),
                       u_keep := Some False\<rparr>))
     = ''error_handler''"
proof -
  let ?c = "sample_classification (JStr ''pilot_evaluation'') (Fin (82 / 100))
              (JStr ''adopt a new curriculum'')"
  let ?u = "no_update\<lparr>u_errors := Some (errors unclassified_state
                                           @ [Msg ''No classification to validate'']),
                       u_keep := Some False\<rparr>"
  have h1: "classification unclassified_state = None"
    by (simp add: sample_defs initial_state_def)
  have "\<not> str_in ''adopt a new curriculum'' (chunk_text sample_chunk)"
    by (simp add: sample_defs)
  then have h2: "classification (classified_state ?c) = Some ?c
        \<and> evidence_snippet ?c = JStr ''adopt a new curriculum''
        \<and> \<not> (\<exists>before after. chunk_text (chunk (classified_state ?c))
                               = before @ ''adopt a new curriculum'' @ after)"
    unfolding str_in_iff by (simp add: sample_defs initial_state_def)
  have e: "errors (classified_state ?c) = []"
    by (simp add: sample_defs initial_state_def)
  have r1: "evidence_validation_node unclassified_state = Inr ?u"
    using evidence_validation_failure_update[of unclassified_state ?c
        "''adopt a new curriculum''" ?u kept_world] h1
    by blast
  have h3: "?u \<noteq> no_update"
    by (simp add: no_update_def)
  have r3: "decision_router kept_world (apply_update unclassified_state ?u) = ''error_handler''"
    using evidence_validation_failure_update[of unclassified_state ?c
        "''adopt a new curriculum''" ?u kept_world] r1 h3
    by blast
  have r2: "evidence_validation_node (classified_state ?c)
     = Inr (no_update\<lparr>u_errors :=
                         Some [Msg ''Evidence snippet not found verbatim in chunk text''],
                       u_keep := Some False\<rparr>)"
    using evidence_validation_failure_update[of "classified_state ?c" ?c
        "''adopt a new curriculum''" ?u kept_world] h2 e
    by simp
  from r1 r2 r3 show ?thesis by blast
qed

section \<open>Traversals of the graph\<close>

lemma evaluate_chunk_Inr:
  "evaluate_chunk W ch = Inr s \<longleftrightarrow> (\<exists>tr. invoke W (initial_state ch) = Inr (s, tr))"
  by (cases "invoke W (initial_state ch)") (auto simp: evaluate_chunk_def)

lemma kept_world_run:
  "invoke kept_world (initial_state sample_chunk) =
     Inr (kept_final, [Classify, ValidateEvidence, Score, Normalize])"
  by (simp add: sample_defs model_defs)

lemma timeout_world_run:
  "invoke timeout_world (initial_state sample_chunk) =
     Inr (timeout_final, [Classify, ValidateEvidence, ErrorHandler])"
  by (simp add: sample_defs model_defs)

text \<open>
  C1. Whenever a traversal runs the Normalize stage, the final state holds a signal
  record whose evidence snippet is a string occurring verbatim, character for
  character, in the text of the unit.
\<close>

theorem normalized_snippet_verbatim:
  assumes "invoke W (initial_state ch) = Inr (s, tr)"
    and "Normalize \<in> set tr"
  shows "\<exists>r snippet before after.
           signal_record s = Some r \<and> sr_evidence_snippet r = JStr snippet
           \<and> chunk s = ch \<and> chunk_text ch = before @ snippet @ after"
proof -
  from traversal_outcome[OF assms(1)] assms(2)
  obtain r sn where "chunk s = ch" "signal_record s = Some r"
    "sr_evidence_snippet r = JStr sn" "str_in sn (chunk_text ch)"
    by auto
  moreover from this obtain before after where "chunk_text ch = before @ sn @ after"
    unfolding str_in_iff by blast
  ultimately show ?thesis by blast
qed

theorem normalized_snippet_verbatim_witness:
  "invoke kept_world (initial_state sample_chunk) =
     Inr (kept_final, [Classify, ValidateEvidence, Score, Normalize])
   \<and> Normalize \<in> set [Classify, ValidateEvidence, Score, Normalize]
   \<and> (\<exists>r snippet before after.
           signal_record kept_final = Some r \<and> sr_evidence_snippet r = JStr snippet
           \<and> chunk kept_final = sample_chunk
           \<and> chunk_text sample_chunk = before @ snippet @ after)"
proof -
  have h: "Normalize \<in> set [Classify, ValidateEvidence, Score, Normalize]" by simp
  from normalized_snippet_verbatim[OF kept_world_run h] kept_world_run h
  show ?thesis by (intro conjI)
qed

text \<open>
  C4. In the final state that \<open>evaluate_chunk\<close> returns, \<open>keep\<close> is true if and only if
  a signal record is present, and a true \<open>keep\<close> comes with a classification whose
  category is not \<open>"none"\<close>.
\<close>

theorem keep_iff_signal_record:
  assumes "evaluate_chunk W ch = Inr s"
  shows "(keep s \<longleftrightarrow> signal_record s \<noteq> None)
         \<and> (keep s \<longrightarrow> (\<exists>c. classification s = Some c \<and> category c \<noteq> JStr ''none''))"
proof -
  from assms obtain tr where "invoke W (initial_state ch) = Inr (s, tr)"
    unfolding evaluate_chunk_Inr by blast
  from traversal_outcome[OF this] show ?thesis by auto
qed

theorem keep_iff_signal_record_witness:
  "evaluate_chunk kept_world sample_chunk = Inr kept_final
   \<and> keep kept_final \<and> signal_record kept_final \<noteq> None
   \<and> (\<exists>c. classification kept_final = Some c \<and> category c \<noteq> JStr ''none'')
   \<and> evaluate_chunk timeout_world sample_chunk = Inr timeout_final
   \<and> \<not> keep timeout_final \<and> signal_record timeout_final = None"
proof -
  have h1: "evaluate_chunk kept_world sample_chunk = Inr kept_final"
    unfolding evaluate_chunk_Inr using kept_world_run by blast
  have h2: "evaluate_chunk timeout_world sample_chunk = Inr timeout_final"
    unfolding evaluate_chunk_Inr using timeout_world_run by blast
  have k1: "keep kept_final" by (simp add: kept_final_def)
  have k2: "\<not> keep timeout_final" by (simp add: timeout_final_def initial_state_def)
  from keep_iff_signal_record[OF h1] keep_iff_signal_record[OF h2] h1 h2 k1 k2
  show ?thesis by simp
qed

text \<open>
  C5. If the error list of a final state is not empty, the traversal ended in the error
  handler and never ran Normalize: \<open>keep\<close> is false and there is no signal record.
\<close>

theorem errors_end_in_error_handler:
  assumes "invoke W (initial_state ch) = Inr (s, tr)"
    and "errors s \<noteq> []"
  shows "last tr = ErrorHandler \<and> Normalize \<notin> set tr
         \<and> \<not> keep s \<and> signal_record s = None"
  using traversal_outcome[OF assms(1)] assms(2) by auto

theorem errors_end_in_error_handler_witness:
  "invoke timeout_world (initial_state sample_chunk) =
     Inr (timeout_final, [Classify, ValidateEvidence, ErrorHandler])
   \<and> errors timeout_final \<noteq> []
   \<and> last [Classify, ValidateEvidence, ErrorHandler] = ErrorHandler
   \<and> Normalize \<notin> set [Classify, ValidateEvidence, ErrorHandler]
   \<and> \<not> keep timeout_final \<and> signal_record timeout_final = None"
proof -
  have h: "errors timeout_final \<noteq> []" by (simp add: timeout_final_def)
  from errors_end_in_error_handler[OF timeout_world_run h] timeout_world_run h
  show ?thesis by (intro conjI) simp_all
qed

section \<open>The classify stage\<close>

lemma classify_node_forms:
  "\<exists>u. classify_node W state = Inr u
        \<and> ((\<exists>c. u = no_update\<lparr>u_classification := Some c\<rparr>)
           \<or> (\<exists>x. u = no_update\<lparr>u_errors :=
                                   Some (errors state @ [NodeExn ''classify_node'' x])\<rparr>))"
proof (cases rule: classify_node_cases[of W state])
  case (classified c)
  then show ?thesis by blast
next
  case (failed e)
  then show ?thesis by blast
qed

lemma classify_node_Inl:
  "classify_body W state = Inl e \<Longrightarrow>
   classify_node W state =
     Inr (no_update\<lparr>u_errors := Some (errors state @ [NodeExn ''classify_node'' e])\<rparr>)"
  by (simp add: classify_node_def)

lemma classify_node_Inr:
  "classify_body W state = Inr u \<Longrightarrow> classify_node W state = Inr u"
  by (simp add: classify_node_def)

lemma classify_node_missing:
  assumes "classify_call W (chunk state) = Inr (JObj d)"
    and "f \<in> set required_fields" and "map_of d f = None"
  shows "\<exists>g \<in> set required_fields. map_of d g = None \<and>
           classify_node W state =
             Inr (no_update\<lparr>u_errors :=
                    Some (errors state
                          @ [NodeExn ''classify_node''
                               (ValueErrorMsg
                                  (''Missing required field in classification: '' @ g))])\<rparr>)"
proof -
  from classify_body_missing[OF assms]
  obtain g where g: "g \<in> set required_fields" "map_of d g = None"
    and b: "classify_body W state =
       Inl (ValueErrorMsg (''Missing required field in classification: '' @ g))"
    by (elim bexE conjE)
  from g classify_node_Inl[OF b] show ?thesis by (intro bexI[of _ g] conjI)
qed

lemma classify_failure_traversal:
  assumes "classify_body W (initial_state ch) = Inl x"
  shows "invoke W (initial_state ch) =
           Inr ((initial_state ch)
                  \<lparr>errors := [NodeExn ''classify_node'' x,
                              Msg ''No classification to validate'']\<rparr>,
                [Classify, ValidateEvidence, ErrorHandler])"
  using run_classify_failed[OF classify_node_Inl[OF assms], of "Suc 21"]
  unfolding invoke_fuel .

lemma classify_body_call_failed:
  "classify_call W (chunk state) = Inl e \<Longrightarrow> classify_body W state = Inl e"
  by (simp add: classify_body_def)

text \<open>
  C7. The classify stage never raises. A failing call is recorded as an error entry;
  so is a response object that lacks one of the four required fields. A response object
  with all four fields whose confidence \<open>float()\<close> accepts is written to the state as
  the classification. Every update of the stage is of one of these two forms. After a
  failing call or a missing field the traversal ends in the error handler, not in
  Drop, with a non-empty error list and \<open>keep = False\<close>.
\<close>

theorem classify_node_contract:
  "(\<exists>u. classify_node W state = Inr u
        \<and> ((\<exists>c. u = no_update\<lparr>u_classification := Some c\<rparr>)
           \<or> (\<exists>x. u = no_update\<lparr>u_errors :=
                                   Some (errors state @ [NodeExn ''classify_node'' x])\<rparr>)))
   \<and> (classify_call W (chunk state) = Inl e \<longrightarrow>
        classify_node W state =
          Inr (no_update\<lparr>u_errors := Some (errors state @ [NodeExn ''classify_node'' e])\<rparr>))
   \<and> (classify_call W (chunk state) = Inr (JObj d) \<and> f \<in> set required_fields
        \<and> map_of d f = None \<longrightarrow>
        (\<exists>g \<in> set required_fields. map_of d g = None \<and>
           classify_node W state =
             Inr (no_update\<lparr>u_errors :=
                    Some (errors state
                          @ [NodeExn ''classify_node''
                               (ValueErrorMsg
                                  (''Missing required field in classification: '' @ g))])\<rparr>)))
   \<and> (classify_call W (chunk state) = Inr (JObj d)
        \<and> map_of d ''category'' = Some cat \<and> map_of d ''confidence'' = Some raw
        \<and> py_float (builtins W) raw = Inr conf
        \<and> map_of d ''evidence_snippet'' = Some snippet \<and> map_of d ''rationale'' = Some rat
        \<longrightarrow>
        classify_node W state =
          Inr (no_update\<lparr>u_classification :=
                 Some \<lparr>category = cat, confidence = conf,
                       evidence_snippet = snippet, rationale = rat\<rparr>\<rparr>))
   \<and> (classify_call W ch = Inl e
        \<or> (classify_call W ch = Inr (JObj d) \<and> f \<in> set required_fields \<and> map_of d f = None)
        \<longrightarrow>
        (\<exists>x. invoke W (initial_state ch) =
               Inr ((initial_state ch)
                      \<lparr>errors := [NodeExn ''classify_node'' x,
                                  Msg ''No classification to validate'']\<rparr>,
                    [Classify, ValidateEvidence, ErrorHandler])))"
proof (intro conjI impI)
  show "\<exists>u. classify_node W state = Inr u
        \<and> ((\<exists>c. u = no_update\<lparr>u_classification := Some c\<rparr>)
           \<or> (\<exists>x. u = no_update\<lparr>u_errors :=
                                   Some (errors state @ [NodeExn ''classify_node'' x])\<rparr>))"
    by (rule classify_node_forms)
next
  assume "classify_call W (chunk state) = Inl e"
  then show "classify_node W state =
          Inr (no_update\<lparr>u_errors := Some (errors state @ [NodeExn ''classify_node'' e])\<rparr>)"
    by (intro classify_node_Inl classify_body_call_failed)
next
  assume a: "classify_call W (chunk state) = Inr (JObj d) \<and> f \<in> set required_fields
        \<and> map_of d f = None"
  show "\<exists>g \<in> set required_fields. map_of d g = None \<and>
           classify_node W state =
             Inr (no_update\<lparr>u_errors :=
                    Some (errors state
                          @ [NodeExn ''classify_node''
                               (ValueErrorMsg
                                  (''Missing required field in classification: '' @ g))])\<rparr>)"
    by (rule classify_node_missing[OF a[THEN conjunct1] a[THEN conjunct2, THEN conjunct1]
          a[THEN conjunct2, THEN conjunct2]])
next
  assume a: "classify_call W (chunk state) = Inr (JObj d)
        \<and> map_of d ''category'' = Some cat \<and> map_of d ''confidence'' = Some raw
        \<and> py_float (builtins W) raw = Inr conf
        \<and> map_of d ''evidence_snippet'' = Some snippet \<and> map_of d ''rationale'' = Some rat"
  then have a1: "classify_call W (chunk state) = Inr (JObj d)"
    and a2: "map_of d ''category'' = Some cat" and a3: "map_of d ''confidence'' = Some raw"
    and a4: "py_float (builtins W) raw = Inr conf"
    and a5: "map_of d ''evidence_snippet'' = Some snippet"
    and a6: "map_of d ''rationale'' = Some rat"
    by simp_all
  show "classify_node W state =
          Inr (no_update\<lparr>u_classification :=
                 Some \<lparr>category = cat, confidence = conf,
                       evidence_snippet = snippet, rationale = rat\<rparr>\<rparr>)"
    by (rule classify_node_Inr[OF classify_body_complete[OF a1 a2 a3 a4 a5 a6]])
next
  let ?s0 = "initial_state ch"
  assume a: "classify_call W ch = Inl e
        \<or> (classify_call W ch = Inr (JObj d) \<and> f \<in> set required_fields \<and> map_of d f = None)"
  have ch: "chunk ?s0 = ch" by (simp add: initial_state_def)
  from a have "\<exists>x. classify_body W ?s0 = Inl x"
  proof
    assume "classify_call W ch = Inl e"
    then have "classify_body W ?s0 = Inl e"
      by (intro classify_body_call_failed) (simp add: ch)
    then show ?thesis by - (rule exI)
  next
    assume b: "classify_call W ch = Inr (JObj d) \<and> f \<in> set required_fields \<and> map_of d f = None"
    then have b1: "classify_call W (chunk ?s0) = Inr (JObj d)" by (simp add: ch)
    from classify_body_missing[OF b1 b[THEN conjunct2, THEN conjunct1]
        b[THEN conjunct2, THEN conjunct2]]
    show ?thesis by (elim bexE conjE) (rule exI)
  qed
  then obtain x where "classify_body W ?s0 = Inl x" ..
  from classify_failure_traversal[OF this]
  show "\<exists>x. invoke W ?s0 =
               Inr (?s0\<lparr>errors := [NodeExn ''classify_node'' x,
                                     Msg ''No classification to validate'']\<rparr>,
                    [Classify, ValidateEvidence, ErrorHandler])"
    by - (rule exI)
qed


text \<open>
  A timed-out call and a response without \<open>confidence\<close> are recorded and end in the
  error handler; the response of the specification's example is stored.
\<close>

theorem classify_node_contract_witness:
  "classify_node timeout_world (initial_state sample_chunk) =
     Inr (no_update\<lparr>u_errors := Some [NodeExn ''classify_node'' (CallError ''timeout'')]\<rparr>)
   \<and> classify_node no_confidence_world (initial_state sample_chunk) =
       Inr (no_update\<lparr>u_errors :=
              Some [NodeExn ''classify_node''
                      (ValueErrorMsg ''Missing required field in classification: confidence'')]\<rparr>)
   \<and> classify_node kept_world (initial_state sample_chunk) =
       Inr (no_update\<lparr>u_classification :=
              Some \<lparr>category = JStr ''pilot_evaluation'', confidence = Fin (82 / 100),
                    evidence_snippet = JStr ''evaluate a new literacy pilot'',
                    rationale = JStr ''pilot planned''\<rparr>\<rparr>)
   \<and> (\<exists>x. invoke no_confidence_world (initial_state sample_chunk) =
            Inr ((initial_state sample_chunk)
                   \<lparr>errors := [NodeExn ''classify_node'' x,
                               Msg ''No classification to validate'']\<rparr>,
                 [Classify, ValidateEvidence, ErrorHandler]))"
proof -
  let ?s0 = "initial_state sample_chunk"
  let ?d = "[(''category'', JStr ''pilot_evaluation''),
             (''evidence_snippet'', JStr ''evaluate a new literacy pilot''),
             (''rationale'', JStr ''pilot planned'')]"
  let ?dk = "[(''category'', JStr ''pilot_evaluation''),
              (''confidence'', JFloat (Fin (82 / 100))),
              (''evidence_snippet'', JStr ''evaluate a new literacy pilot''),
              (''rationale'', JStr ''pilot planned'')]"
  have ch: "chunk ?s0 = sample_chunk" and es: "errors ?s0 = []"
    by (simp_all add: initial_state_def)
  have h1: "classify_call timeout_world (chunk ?s0) = Inl (CallError ''timeout'')"
    by (simp add: sample_defs)
  have h2: "classify_call no_confidence_world (chunk ?s0) = Inr (JObj ?d)
            \<and> ''confidence'' \<in> set required_fields \<and> map_of ?d ''confidence'' = None"
    by (simp add: sample_defs required_fields_def)
  have h3: "classify_call kept_world (chunk ?s0) = Inr (JObj ?dk)
        \<and> map_of ?dk ''category'' = Some (JStr ''pilot_evaluation'')
        \<and> map_of ?dk ''confidence'' = Some (JFloat (Fin (82 / 100)))
        \<and> py_float (builtins kept_world) (JFloat (Fin (82 / 100))) = Inr (Fin (82 / 100))
        \<and> map_of ?dk ''evidence_snippet'' = Some (JStr ''evaluate a new literacy pilot'')
        \<and> map_of ?dk ''rationale'' = Some (JStr ''pilot planned'')"
    by (simp add: sample_defs)
  have h4: "classify_call no_confidence_world sample_chunk = Inl (CallError ''timeout'')
            \<or> (classify_call no_confidence_world sample_chunk = Inr (JObj ?d)
                \<and> ''confidence'' \<in> set required_fields \<and> map_of ?d ''confidence'' = None)"
    using h2 ch by simp
  have r1: "classify_node timeout_world ?s0 =
     Inr (no_update\<lparr>u_errors := Some [NodeExn ''classify_node'' (CallError ''timeout'')]\<rparr>)"
    using classify_node_contract[where W = timeout_world and state = "?s0"
        and e = "CallError ''timeout''", THEN conjunct2, THEN conjunct1, THEN mp, OF h1] es
    by simp
  from classify_node_contract[where W = no_confidence_world and state = "?s0" and d = "?d"
        and f = "''confidence''", THEN conjunct2, THEN conjunct2, THEN conjunct1, THEN mp, OF h2]
  obtain g where g: "g \<in> set required_fields" "map_of ?d g = None"
    and n: "classify_node no_confidence_world ?s0 =
             Inr (no_update\<lparr>u_errors :=
                    Some (errors ?s0
                          @ [NodeExn ''classify_node''
                               (ValueErrorMsg
                                  (''Missing required field in classification: '' @ g))])\<rparr>)"
    by (elim bexE conjE)
  from g have "g = ''confidence''"
    by (auto simp: required_fields_def)
  with n es have r2: "classify_node no_confidence_world ?s0 =
       Inr (no_update\<lparr>u_errors :=
              Some [NodeExn ''classify_node''
                      (ValueErrorMsg ''Missing required field in classification: confidence'')]\<rparr>)"
    by simp
  have r3: "classify_node kept_world ?s0 =
       Inr (no_update\<lparr>u_classification :=
              Some \<lparr>category = JStr ''pilot_evaluation'', confidence = Fin (82 / 100),
                    evidence_snippet = JStr ''evaluate a new literacy pilot'',
                    rationale = JStr ''pilot planned''\<rparr>\<rparr>)"
    by (rule classify_node_contract[where W = kept_world and state = "?s0" and d = "?dk",
        THEN conjunct2, THEN conjunct2, THEN conjunct2, THEN conjunct1, THEN mp, OF h3])
  have r4: "\<exists>x. invoke no_confidence_world ?s0 =
            Inr (?s0\<lparr>errors := [NodeExn ''classify_node'' x,
                                  Msg ''No classification to validate'']\<rparr>,
                 [Classify, ValidateEvidence, ErrorHandler])"
    by (rule classify_node_contract[where W = no_confidence_world and ch = sample_chunk
        and d = "?d" and f = "''confidence''" and e = "CallError ''timeout''",
        THEN conjunct2, THEN conjunct2, THEN conjunct2, THEN conjunct2, THEN mp, OF h4])
  from r1 r2 r3 r4 show ?thesis by (intro conjI)
qed

section \<open>The score stage\<close>

lemma sub_score_absent:
  "map_of d ''score_breakdown'' = None \<Longrightarrow>
   sub_score B (JObj d) name = spec_sub_score B [] name"
  by (simp add: sub_score_def spec_sub_score_def)

lemma sub_score_object:
  "map_of d ''score_breakdown'' = Some (JObj sb) \<Longrightarrow>
   sub_score B (JObj d) name = spec_sub_score B sb name"
  by (simp add: sub_score_def spec_sub_score_def split: option.splits)

lemma py_int_not_numeric: "\<not> is_numeric B v \<Longrightarrow> py_int B v \<noteq> Inr i"
  by (cases v) (auto split: option.splits)

lemma score_body_Inr_fields:
  assumes "score_body W s = Inr u"
  shows "\<exists>c d raw opp su st.
           classification s = Some c \<and> score_call W (chunk s) c = Inr (JObj d)
           \<and> map_of d ''opportunity_score'' = Some raw \<and> py_int (builtins W) raw = Inr opp
           \<and> map_of d ''summary'' = Some su \<and> map_of d ''recommended_next_step'' = Some st"
proof (cases "classification s")
  case None
  with assms show ?thesis by (simp add: score_body_def)
next
  case (Some c)
  with assms obtain result raw opp su st where
    "score_call W (chunk s) c = Inr result"
    "py_getitem result ''opportunity_score'' = Inr raw" "py_int (builtins W) raw = Inr opp"
    "py_getitem result ''summary'' = Inr su"
    "py_getitem result ''recommended_next_step'' = Inr st"
    unfolding score_body_def by (auto simp: then_do_Inr_iff)
  with Some show ?thesis by (fastforce dest!: py_getitem_Inr)
qed

lemma score_node_Inl:
  "score_body W state = Inl e \<Longrightarrow>
   score_node W state =
     Inr (no_update\<lparr>u_errors := Some (errors state @ [NodeExn ''score_node'' e])\<rparr>)"
  by (simp add: score_node_def)

lemma score_node_Inr:
  "score_body W state = Inr u \<Longrightarrow> score_node W state = Inr u"
  by (simp add: score_node_def)

lemma score_node_forms:
  "\<exists>u. score_node W state = Inr u \<and> u_keep u = None
        \<and> ((\<exists>sc. u = no_update\<lparr>u_scoring := Some sc\<rparr>)
           \<or> (\<exists>x. u = no_update\<lparr>u_errors :=
                                   Some (errors state @ [NodeExn ''score_node'' x])\<rparr>))"
proof (cases rule: score_node_cases[of W state])
  case (scored sc)
  moreover have "u_keep (no_update\<lparr>u_scoring := Some sc\<rparr>) = None"
    by (simp add: no_update_def)
  ultimately show ?thesis by blast
next
  case (failed e)
  moreover have "u_keep (no_update\<lparr>u_errors :=
                    Some (errors state @ [NodeExn ''score_node'' e])\<rparr>) = None"
    by (simp add: no_update_def)
  ultimately show ?thesis by blast
qed

lemma score_body_complete:
  assumes "classification state = Some c"
    and "score_call W (chunk state) c = Inr (JObj d)"
    and "map_of d ''score_breakdown'' = None \<and> sb = []
         \<or> map_of d ''score_breakdown'' = Some (JObj sb)"
    and "spec_sub_score (builtins W) sb ''intent_strength'' = Inr i_s"
    and "spec_sub_score (builtins W) sb ''time_window'' = Inr t_w"
    and "spec_sub_score (builtins W) sb ''eduquest_fit'' = Inr e_f"
    and "spec_sub_score (builtins W) sb ''evidence_quality'' = Inr e_q"
    and "map_of d ''opportunity_score'' = Some raw" and "py_int (builtins W) raw = Inr opp"
    and "map_of d ''summary'' = Some su" and "map_of d ''recommended_next_step'' = Some st"
  shows "score_body W state =
           Inr (no_update\<lparr>u_scoring :=
                  Some \<lparr>opportunity_score = opp,
                        score_breakdown =
                          \<lparr>intent_strength = i_s, time_window = t_w,
                           eduquest_fit = e_f, evidence_quality = e_q\<rparr>,
                        summary = su, recommended_next_step = st\<rparr>\<rparr>)"
proof -
  from assms(3) have "\<And>name. sub_score (builtins W) (JObj d) name
                              = spec_sub_score (builtins W) sb name"
    using sub_score_absent sub_score_object by metis
  with assms(1,2,4-) show ?thesis
    by (simp add: score_body_def)
qed

lemma score_body_incomplete:
  assumes "classification state = Some c"
    and "score_call W (chunk state) c = Inr (JObj d)"
    and "map_of d ''opportunity_score'' = None \<or> map_of d ''summary'' = None
         \<or> map_of d ''recommended_next_step'' = None
         \<or> (\<exists>raw. map_of d ''opportunity_score'' = Some raw
                   \<and> \<not> is_numeric (builtins W) raw)"
  shows "\<exists>x. score_body W state = Inl x"
proof (cases "score_body W state")
  case (Inl x)
  then show ?thesis by - (rule exI)
next
  case (Inr u)
  from score_body_Inr_fields[OF Inr] assms(1,2)
  obtain raw opp su st where
    "map_of d ''opportunity_score'' = Some raw" "py_int (builtins W) raw = Inr opp"
    "map_of d ''summary'' = Some su" "map_of d ''recommended_next_step'' = Some st"
    by auto
  with assms(3) py_int_not_numeric[of "builtins W" raw opp] have False by auto
  then show ?thesis ..
qed


text \<open>
  C8. The score stage never raises and never sets \<open>keep\<close>; its update is either a
  scoring result or one more error entry. A failing call, a response object without
  \<open>opportunity_score\<close>, \<open>summary\<close> or \<open>recommended_next_step\<close>, and a non-numeric
  \<open>opportunity_score\<close> each append an error. A response object with those three fields
  and a convertible score, whose breakdown is absent or an object with convertible
  sub-fields, yields a scoring result in which every missing sub-field is 0.
\<close>

theorem score_node_contract:
  "(\<exists>u. score_node W state = Inr u \<and> u_keep u = None
        \<and> ((\<exists>sc. u = no_update\<lparr>u_scoring := Some sc\<rparr>)
           \<or> (\<exists>x. u = no_update\<lparr>u_errors :=
                                   Some (errors state @ [NodeExn ''score_node'' x])\<rparr>)))
   \<and> (classification state = Some c \<and> score_call W (chunk state) c = Inl e \<longrightarrow>
        score_node W state =
          Inr (no_update\<lparr>u_errors := Some (errors state @ [NodeExn ''score_node'' e])\<rparr>))
   \<and> (classification state = Some c \<and> score_call W (chunk state) c = Inr (JObj d)
        \<and> (map_of d ''opportunity_score'' = None \<or> map_of d ''summary'' = None
            \<or> map_of d ''recommended_next_step'' = None
            \<or> (\<exists>raw. map_of d ''opportunity_score'' = Some raw
                      \<and> \<not> is_numeric (builtins W) raw))
        \<longrightarrow>
        (\<exists>x. score_node W state =
               Inr (no_update\<lparr>u_errors :=
                      Some (errors state @ [NodeExn ''score_node'' x])\<rparr>)))
   \<and> (classification state = Some c \<and> score_call W (chunk state) c = Inr (JObj d)
        \<and> (map_of d ''score_breakdown'' = None \<and> sb = []
            \<or> map_of d ''score_breakdown'' = Some (JObj sb))
        \<and> spec_sub_score (builtins W) sb ''intent_strength'' = Inr i_s
        \<and> spec_sub_score (builtins W) sb ''time_window'' = Inr t_w
        \<and> spec_sub_score (builtins W) sb ''eduquest_fit'' = Inr e_f
        \<and> spec_sub_score (builtins W) sb ''evidence_quality'' = Inr e_q
        \<and> map_of d ''opportunity_score'' = Some raw \<and> py_int (builtins W) raw = Inr opp
        \<and> map_of d ''summary'' = Some su \<and> map_of d ''recommended_next_step'' = Some st
        \<longrightarrow>
        score_node W state =
          Inr (no_update\<lparr>u_scoring :=
                 Some \<lparr>opportunity_score = opp,
                       score_breakdown =
                         \<lparr>intent_strength = i_s, time_window = t_w,
                          eduquest_fit = e_f, evidence_quality = e_q\<rparr>,
                       summary = su, recommended_next_step = st\<rparr>\<rparr>))
   \<and> (map_of sb name = None \<longrightarrow> spec_sub_score (builtins W) sb name = Inr 0)"
proof (intro conjI impI)
  show "\<exists>u. score_node W state = Inr u \<and> u_keep u = None
        \<and> ((\<exists>sc. u = no_update\<lparr>u_scoring := Some sc\<rparr>)
           \<or> (\<exists>x. u = no_update\<lparr>u_errors :=
                                   Some (errors state @ [NodeExn ''score_node'' x])\<rparr>))"
    by (rule score_node_forms)
next
  assume "classification state = Some c \<and> score_call W (chunk state) c = Inl e"
  then have "score_body W state = Inl e" by (simp add: score_body_def)
  then show "score_node W state =
          Inr (no_update\<lparr>u_errors := Some (errors state @ [NodeExn ''score_node'' e])\<rparr>)"
    by (rule score_node_Inl)
next
  assume a: "classification state = Some c \<and> score_call W (chunk state) c = Inr (JObj d)
        \<and> (map_of d ''opportunity_score'' = None \<or> map_of d ''summary'' = None
            \<or> map_of d ''recommended_next_step'' = None
            \<or> (\<exists>raw. map_of d ''opportunity_score'' = Some raw
                      \<and> \<not> is_numeric (builtins W) raw))"
  from score_body_incomplete[OF a[THEN conjunct1] a[THEN conjunct2, THEN conjunct1]
      a[THEN conjunct2, THEN conjunct2]]
  obtain x where "score_body W state = Inl x" ..
  from score_node_Inl[OF this]
  show "\<exists>x. score_node W state =
               Inr (no_update\<lparr>u_errors :=
                      Some (errors state @ [NodeExn ''score_node'' x])\<rparr>)"
    by - (rule exI)
next
  assume a: "classification state = Some c \<and> score_call W (chunk state) c = Inr (JObj d)
        \<and> (map_of d ''score_breakdown'' = None \<and> sb = []
            \<or> map_of d ''score_breakdown'' = Some (JObj sb))
        \<and> spec_sub_score (builtins W) sb ''intent_strength'' = Inr i_s
        \<and> spec_sub_score (builtins W) sb ''time_window'' = Inr t_w
        \<and> spec_sub_score (builtins W) sb ''eduquest_fit'' = Inr e_f
        \<and> spec_sub_score (builtins W) sb ''evidence_quality'' = Inr e_q
        \<and> map_of d ''opportunity_score'' = Some raw \<and> py_int (builtins W) raw = Inr opp
        \<and> map_of d ''summary'' = Some su \<and> map_of d ''recommended_next_step'' = Some st"
  then have a1: "classification state = Some c"
    and a2: "score_call W (chunk state) c = Inr (JObj d)"
    and a3: "map_of d ''score_breakdown'' = None \<and> sb = []
             \<or> map_of d ''score_breakdown'' = Some (JObj sb)"
    and a4: "spec_sub_score (builtins W) sb ''intent_strength'' = Inr i_s"
    and a5: "spec_sub_score (builtins W) sb ''time_window'' = Inr t_w"
    and a6: "spec_sub_score (builtins W) sb ''eduquest_fit'' = Inr e_f"
    and a7: "spec_sub_score (builtins W) sb ''evidence_quality'' = Inr e_q"
    and a8: "map_of d ''opportunity_score'' = Some raw"
    and a9: "py_int (builtins W) raw = Inr opp"
    and a10: "map_of d ''summary'' = Some su"
    and a11: "map_of d ''recommended_next_step'' = Some st"
    by simp_all
  show "score_node W state =
          Inr (no_update\<lparr>u_scoring :=
                 Some \<lparr>opportunity_score = opp,
                       score_breakdown =
                         \<lparr>intent_strength = i_s, time_window = t_w,
                          eduquest_fit = e_f, evidence_quality = e_q\<rparr>,
                       summary = su, recommended_next_step = st\<rparr>\<rparr>)"
    by (rule score_node_Inr[OF score_body_complete[OF a1 a2 a3 a4 a5 a6 a7 a8 a9 a10 a11]])
next
  assume "map_of sb name = None"
  then show "spec_sub_score (builtins W) sb name = Inr 0"
    by (simp add: spec_sub_score_def)
qed


text \<open>
  With the classification of the example: a timed-out score call, a response without
  \<open>summary\<close> and a response whose score is the string "high" each append an error;
  the response with score 62 and a breakdown holding only \<open>intent_strength\<close> is stored
  with the three other sub-scores 0.
\<close>

theorem score_node_contract_witness:
  "score_node (score_world (Inl (CallError ''timeout''))) (classified_state good_classification)
     = Inr (no_update\<lparr>u_errors := Some [NodeExn ''score_node'' (CallError ''timeout'')]\<rparr>)
   \<and> (\<exists>x. score_node
            (score_world (Inr (JObj [(''opportunity_score'', JInt 62),
                                     (''recommended_next_step'', JStr ''monitor'')])))
            (classified_state good_classification)
          = Inr (no_update\<lparr>u_errors := Some [NodeExn ''score_node'' x]\<rparr>))
   \<and> (\<exists>x. score_node
            (score_world (Inr (JObj [(''opportunity_score'', JStr ''high''),
                                     (''summary'', JStr ''literacy pilot''),
                                     (''recommended_next_step'', JStr ''monitor'')])))
            (classified_state good_classification)
          = Inr (no_update\<lparr>u_errors := Some [NodeExn ''score_node'' x]\<rparr>))
   \<and> score_node kept_world (classified_state good_classification)
       = Inr (no_update\<lparr>u_scoring := Some (sample_scoring 62 ''research_more'')\<rparr>)
   \<and> (\<exists>u. score_node kept_world (classified_state good_classification) = Inr u
            \<and> u_keep u = None)"
proof -
  let ?st = "classified_state good_classification"
  let ?c = "good_classification"
  let ?d2 = "[(''opportunity_score'', JInt 62), (''recommended_next_step'', JStr ''monitor'')]"
  let ?d3 = "[(''opportunity_score'', JStr ''high''), (''summary'', JStr ''literacy pilot''),
              (''recommended_next_step'', JStr ''monitor'')]"
  let ?sb = "[(''intent_strength'', JInt 20)]"
  let ?d4 = "[(''opportunity_score'', JInt 62), (''score_breakdown'', JObj ?sb),
              (''summary'', JStr ''literacy pilot''),
              (''recommended_next_step'', JStr ''research_more'')]"
  have es: "errors ?st = []"
    by (simp add: classified_state_def initial_state_def)
  have h1: "classification ?st = Some ?c
            \<and> score_call (score_world (Inl (CallError ''timeout''))) (chunk ?st) ?c
                = Inl (CallError ''timeout'')"
    by (simp add: classified_state_def initial_state_def score_world_def sample_world_def)
  have h2: "classification ?st = Some ?c
            \<and> score_call (score_world (Inr (JObj ?d2))) (chunk ?st) ?c = Inr (JObj ?d2)
            \<and> (map_of ?d2 ''opportunity_score'' = None \<or> map_of ?d2 ''summary'' = None
                \<or> map_of ?d2 ''recommended_next_step'' = None
                \<or> (\<exists>raw. map_of ?d2 ''opportunity_score'' = Some raw
                      \<and> \<not> is_numeric (builtins (score_world (Inr (JObj ?d2)))) raw))"
    by (simp add: classified_state_def initial_state_def score_world_def sample_world_def)
  have h3: "classification ?st = Some ?c
            \<and> score_call (score_world (Inr (JObj ?d3))) (chunk ?st) ?c = Inr (JObj ?d3)
            \<and> (map_of ?d3 ''opportunity_score'' = None \<or> map_of ?d3 ''summary'' = None
                \<or> map_of ?d3 ''recommended_next_step'' = None
                \<or> (\<exists>raw. map_of ?d3 ''opportunity_score'' = Some raw
                      \<and> \<not> is_numeric (builtins (score_world (Inr (JObj ?d3)))) raw))"
    by (simp add: classified_state_def initial_state_def score_world_def sample_world_def
        sample_builtins_def)
  have h4: "classification ?st = Some ?c
        \<and> score_call kept_world (chunk ?st) ?c = Inr (JObj ?d4)
        \<and> (map_of ?d4 ''score_breakdown'' = None \<and> ?sb = []
            \<or> map_of ?d4 ''score_breakdown'' = Some (JObj ?sb))
        \<and> spec_sub_score (builtins kept_world) ?sb ''intent_strength'' = Inr 20
        \<and> spec_sub_score (builtins kept_world) ?sb ''time_window'' = Inr 0
        \<and> spec_sub_score (builtins kept_world) ?sb ''eduquest_fit'' = Inr 0
        \<and> spec_sub_score (builtins kept_world) ?sb ''evidence_quality'' = Inr 0
        \<and> map_of ?d4 ''opportunity_score'' = Some (JInt 62)
        \<and> py_int (builtins kept_world) (JInt 62) = Inr 62
        \<and> map_of ?d4 ''summary'' = Some (JStr ''literacy pilot'')
        \<and> map_of ?d4 ''recommended_next_step'' = Some (JStr ''research_more'')"
    by (simp add: classified_state_def initial_state_def kept_world_def sample_world_def
        score_response_def spec_sub_score_def)
  have r1: "score_node (score_world (Inl (CallError ''timeout''))) ?st
     = Inr (no_update\<lparr>u_errors := Some [NodeExn ''score_node'' (CallError ''timeout'')]\<rparr>)"
    using score_node_contract[where W = "score_world (Inl (CallError ''timeout''))"
        and state = "?st" and c = "?c" and e = "CallError ''timeout''",
        THEN conjunct2, THEN conjunct1, THEN mp, OF h1] es
    by simp
  have r2: "\<exists>x. score_node (score_world (Inr (JObj ?d2))) ?st
          = Inr (no_update\<lparr>u_errors := Some [NodeExn ''score_node'' x]\<rparr>)"
    using score_node_contract[where W = "score_world (Inr (JObj ?d2))"
        and state = "?st" and c = "?c" and d = "?d2",
        THEN conjunct2, THEN conjunct2, THEN conjunct1, THEN mp, OF h2] es
    by simp
  have r3: "\<exists>x. score_node (score_world (Inr (JObj ?d3))) ?st
          = Inr (no_update\<lparr>u_errors := Some [NodeExn ''score_node'' x]\<rparr>)"
    using score_node_contract[where W = "score_world (Inr (JObj ?d3))"
        and state = "?st" and c = "?c" and d = "?d3",
        THEN conjunct2, THEN conjunct2, THEN conjunct1, THEN mp, OF h3] es
    by simp
  have r4: "score_node kept_world ?st
       = Inr (no_update\<lparr>u_scoring := Some (sample_scoring 62 ''research_more'')\<rparr>)"
    using score_node_contract[where W = kept_world and state = "?st" and c = "?c"
        and d = "?d4" and sb = "?sb",
        THEN conjunct2, THEN conjunct2, THEN conjunct2, THEN conjunct1, THEN mp, OF h4]
    by (simp add: sample_scoring_def)
  have r5: "\<exists>u. score_node kept_world ?st = Inr u \<and> u_keep u = None"
    using score_node_contract[where W = kept_world and state = "?st", THEN conjunct1]
    by (elim exE conjE) (rule exI, rule conjI)
  from r1 r2 r3 r4 r5 show ?thesis by (intro conjI)
qed

section \<open>Shape of a traversal\<close>

lemma traversal_bounded:
  assumes "invoke W (initial_state ch) = Inr (s, tr)"
  shows "length tr \<le> 4 \<and> distinct tr \<and> hd tr = Classify
         \<and> last tr \<in> {Normalize, Drop, ErrorHandler}
         \<and> set (butlast tr) \<inter> {Normalize, Drop, ErrorHandler} = {}"
  using traversal_outcome[OF assms] by auto

text \<open>
  C9, at the input where the code departs from it. The model classifies the unit as
  "none" with \<open>null\<close> evidence; the classify stage stores the response, the validator's
  \<open>snippet not in chunk_text\<close> raises \<open>TypeError\<close>, and the traversal ends with that
  exception after two stages, in none of the three terminal stages.
\<close>

theorem traversal_aborts_on_null_snippet:
  "classify_node null_snippet_world (initial_state sample_chunk) =
     Inr (no_update\<lparr>u_classification :=
            Some \<lparr>category = JStr ''none'', confidence = Fin (9 / 10),
                  evidence_snippet = JNull, rationale = JStr ''pilot planned''\<rparr>\<rparr>)
   \<and> invoke null_snippet_world (initial_state sample_chunk) = Inl TypeError
   \<and> evaluate_chunk null_snippet_world sample_chunk = Inl TypeError"
  by (simp add: sample_defs model_defs evaluate_chunk_def)

end
